theory Spec2Isabelle
  imports Main
begin

section \<open>Feed values\<close>

text \<open>
  The COTS connector works on the value that \<^verbatim>\<open>ujson.loads\<close> returns: nested dicts,
  lists, strings, numbers and \<^verbatim>\<open>None\<close>. A dict is kept as the list of its
  key/value pairs, each key once, and read with \<^const>\<open>map_of\<close>. Python's \<^verbatim>\<open>True\<close> and
  \<^verbatim>\<open>False\<close> are the integers 1 and 0 for every operation used in
  \<^verbatim>\<open>model_maker.py\<close> (equality, truth value, \<^verbatim>\<open>utcfromtimestamp\<close>), so they
  are \<open>JNum 1\<close> and \<open>JNum 0\<close>. Numbers are integers: fractional seconds are outside
  this model.
\<close>

datatype json =
    JNull
  | JNum int
  | JStr string
  | JArr "json list"
  | JObj "(string \<times> json) list"

text \<open>
  Every \<^verbatim>\<open>raise InvalidArguments(...)\<close> of the module is one constructor of
  \<open>reason\<close>, carrying the values its message is formatted from.
\<close>

datatype reason =
    MissingKey string json
  | SourceNotFound json json
  | MultipleNoSource json
  | NoValidStopTime json
  | InvalidStatus json string
  | NoNouvelleVersion
  | InvalidJson

text \<open>
  The other constructors are the built-in exceptions that the module's operations raise on
  values of the wrong shape; \<open>External\<close> is an exception raised inside a collaborator
  (the date parser, the trip lookup), with its message.
\<close>

datatype error =
    InvalidArguments reason
  | AttributeError
  | TypeError
  | KeyError
  | IndexError
  | ValueError
  | External string

definition bind_result :: "error + 'a \<Rightarrow> ('a \<Rightarrow> error + 'b) \<Rightarrow> error + 'b" where
  "bind_result r f = (case r of Inl e \<Rightarrow> Inl e | Inr x \<Rightarrow> f x)"

fun truthy :: "json \<Rightarrow> bool" where
  "truthy JNull = False"
| "truthy (JNum n) = (n \<noteq> 0)"
| "truthy (JStr s) = (s \<noteq> [])"
| "truthy (JArr xs) = (xs \<noteq> [])"
| "truthy (JObj kvs) = (kvs \<noteq> [])"

section \<open>Value accessor\<close>

text \<open>
  \<^verbatim>\<open>get_value(sub_json, key, nullable)\<close>: \<^verbatim>\<open>sub_json.get(key)\<close> exists on dicts
  only; an absent key and a \<^verbatim>\<open>null\<close> value both read as \<^verbatim>\<open>None\<close>.
\<close>

fun get_value :: "json \<Rightarrow> string \<Rightarrow> bool \<Rightarrow> error + json" where
  "get_value (JObj kvs) key nullable =
     (let res = (case map_of kvs key of None \<Rightarrow> JNull | Some v \<Rightarrow> v)
      in if res = JNull \<and> \<not> nullable
         then Inl (InvalidArguments (MissingKey key (JObj kvs)))
         else Inr res)"
| "get_value _ key nullable = Inl AttributeError"

section \<open>Stop relevance filter\<close>

definition is_station :: "json \<Rightarrow> error + bool" where
  "is_station pdp =
     bind_result (get_value pdp ''typeArret'' True)
       (\<lambda>t. Inr (t = JNull \<or> t \<in> set (map JStr ['''', ''CD'', ''CH'', ''FD'', ''FH''])))"

text \<open>
  The generator given to \<^verbatim>\<open>any\<close> over \<^verbatim>\<open>list_pdp[idx:]\<close>: evaluation stops at the
  first point with an arrival block that is a station.
\<close>

fun has_following_arrival :: "json list \<Rightarrow> error + bool" where
  "has_following_arrival [] = Inr False"
| "has_following_arrival (follow_pdp # rest) =
     bind_result (get_value follow_pdp ''horaireVoyageurArrivee'' True)
       (\<lambda>a. if truthy a
            then bind_result (is_station follow_pdp)
                   (\<lambda>s. if s then Inr True else has_following_arrival rest)
            else has_following_arrival rest)"

text \<open>
  The loop of \<^verbatim>\<open>_retrieve_interesting_pdp\<close>. The third argument is
  \<^verbatim>\<open>list_pdp[idx:]\<close>, the current point first; \<^verbatim>\<open>continue\<close> is the recursive call
  with the state unchanged, \<^verbatim>\<open>break\<close> returns \<open>res\<close>.
\<close>

fun pdp_loop :: "json list \<Rightarrow> bool \<Rightarrow> json list \<Rightarrow> error + json list" where
  "pdp_loop res picked_one [] = Inr res"
| "pdp_loop res picked_one (pdp # rest) =
     bind_result (get_value pdp ''horaireVoyageurDepart'' True) (\<lambda>dep.
       if \<not> picked_one \<and> \<not> truthy dep then pdp_loop res picked_one rest
       else bind_result (is_station pdp) (\<lambda>st.
         if \<not> st then pdp_loop res picked_one rest
         else bind_result (get_value pdp ''horaireVoyageurArrivee'' True) (\<lambda>arr.
           if \<not> truthy dep \<and> \<not> truthy arr then pdp_loop res picked_one rest
           else if \<not> truthy arr
           then bind_result (has_following_arrival (pdp # rest)) (\<lambda>has.
                  if \<not> has then Inr res
                  else pdp_loop (res @ [pdp]) True rest)
           else pdp_loop (res @ [pdp]) True rest)))"

text \<open>
  \<^verbatim>\<open>enumerate(list_pdp)\<close> on a value that is not a list: a dict yields its keys and a
  string its characters, all strings, on which \<^verbatim>\<open>get_value\<close> fails at once; a
  number or \<^verbatim>\<open>None\<close> is not iterable.
\<close>

fun retrieve_interesting_pdp :: "json \<Rightarrow> error + json list" where
  "retrieve_interesting_pdp (JArr list_pdp) = pdp_loop [] False list_pdp"
| "retrieve_interesting_pdp (JObj kvs) = (if kvs = [] then Inr [] else Inl AttributeError)"
| "retrieve_interesting_pdp (JStr s) = (if s = [] then Inr [] else Inl AttributeError)"
| "retrieve_interesting_pdp _ = Inl TypeError"

section \<open>Durations\<close>

text \<open>
  \<^verbatim>\<open>as_duration\<close> subtracts two \<^verbatim>\<open>datetime.utcfromtimestamp\<close> values; the result is
  kept as its number of seconds. \<^verbatim>\<open>utcfromtimestamp\<close> wants a number (the docstring
  shows the \<^verbatim>\<open>TypeError\<close> on a string) whose date lies in the years 1 to 9999, and
  raises \<^verbatim>\<open>ValueError\<close> outside.
\<close>

definition timestamp_min :: int where
  "timestamp_min = - 62135596800"

definition timestamp_max :: int where
  "timestamp_max = 253402300799"

fun as_duration :: "json \<Rightarrow> error + int option" where
  "as_duration JNull = Inr None"
| "as_duration (JNum seconds) =
     (if timestamp_min \<le> seconds \<and> seconds \<le> timestamp_max then Inr (Some seconds)
      else Inl ValueError)"
| "as_duration _ = Inl TypeError"

section \<open>Projected-time resolver\<close>

text \<open>
  Python's \<^verbatim>\<open>==\<close> on two parsed values. Two lists are equal when they have the same
  length and equal elements in turn; two dicts when they have the same keys and equal values
  under each key, whatever the order in which the keys are written; \<^verbatim>\<open>None\<close>, numbers
  and strings are equal to themselves only.
\<close>

fun py_eq :: "json \<Rightarrow> json \<Rightarrow> bool" where
  "py_eq (JArr xs) (JArr ys) = list_all2 py_eq xs ys"
| "py_eq (JObj kvs) (JObj kvs') =
     (set (map fst kvs) = set (map fst kvs') \<and>
      (\<forall>(k, v) \<in> set kvs. map_of kvs k = Some v \<longrightarrow>
         (case map_of kvs' k of None \<Rightarrow> False | Some v' \<Rightarrow> py_eq v v')))"
| "py_eq x y = (x = y)"

text \<open>The \<^verbatim>\<open>for p in list_proj_time\<close> loop; \<open>Some p\<close> is \<^verbatim>\<open>return p\<close>.\<close>

fun find_source :: "json \<Rightarrow> json list \<Rightarrow> error + json option" where
  "find_source source_ref [] = Inr None"
| "find_source source_ref (p # ps) =
     bind_result (get_value p ''source'' True)
       (\<lambda>s. if s \<noteq> JNull \<and> py_eq s source_ref then Inr (Some p)
            else find_source source_ref ps)"

text \<open>
  The same loop on any value: the keys of a dict and the characters of a string are
  strings, which have no \<^verbatim>\<open>get\<close>.
\<close>

fun find_in :: "json \<Rightarrow> json \<Rightarrow> error + json option" where
  "find_in source_ref (JArr ps) = find_source source_ref ps"
| "find_in source_ref (JObj kvs) = (if kvs = [] then Inr None else Inl AttributeError)"
| "find_in source_ref (JStr s) = (if s = [] then Inr None else Inl AttributeError)"
| "find_in source_ref _ = Inl TypeError"

fun py_len :: "json \<Rightarrow> error + nat" where
  "py_len (JArr xs) = Inr (length xs)"
| "py_len (JObj kvs) = Inr (length (remdups (map fst kvs)))"
| "py_len (JStr s) = Inr (length s)"
| "py_len _ = Inl TypeError"

text \<open>\<^verbatim>\<open>x[0]\<close>; the keys of a parsed dict are strings, never \<^verbatim>\<open>0\<close>.\<close>

fun py_first :: "json \<Rightarrow> error + json" where
  "py_first (JArr xs) = (case xs of [] \<Rightarrow> Inl IndexError | x # _ \<Rightarrow> Inr x)"
| "py_first (JObj kvs) = Inl KeyError"
| "py_first (JStr s) = (case s of [] \<Rightarrow> Inl IndexError | c # _ \<Rightarrow> Inr (JStr [c]))"
| "py_first _ = Inl TypeError"

text \<open>The result \<open>Inr JNull\<close> is \<^verbatim>\<open>return None\<close>.\<close>

definition retrieve_projected_time :: "json \<Rightarrow> json \<Rightarrow> error + json" where
  "retrieve_projected_time source_ref list_proj_time =
     (if source_ref \<noteq> JNull then
        bind_result
          (if truthy list_proj_time then find_in source_ref list_proj_time else Inr None)
          (\<lambda>found. case found of
             Some p \<Rightarrow> Inr p
           | None \<Rightarrow> Inl (InvalidArguments (SourceNotFound source_ref list_proj_time)))
      else if truthy list_proj_time then
        bind_result (py_len list_proj_time)
          (\<lambda>n. if n = 1 then py_first list_proj_time
               else Inl (InvalidArguments (MultipleNoSource list_proj_time)))
      else Inr JNull)"

section \<open>Trip update builder\<close>

subsection \<open>Results and diagnostics\<close>

text \<open>
  \<^verbatim>\<open>model.TripUpdate\<close> and \<^verbatim>\<open>model.StopTimeUpdate\<close> are kept as records of the
  attributes the builder writes. A status or delay of \<open>None\<close> is an attribute the
  builder has not assigned. Statuses are the strings the source assigns.
\<close>

record ('st, 'msg) stop_time_update =
  navitia_stop :: 'st
  st_message :: "'msg option"
  arrival_status :: "string option"
  departure_status :: "string option"
  arrival_delay :: "int option"
  departure_delay :: "int option"

record ('vj, 'st, 'msg) trip_update =
  vj :: 'vj
  contributor :: "string option"
  tu_message :: "'msg option"
  status :: "string option"
  stop_time_updates :: "('st, 'msg) stop_time_update list"

text \<open>
  Modelled from the spec: the constructors of \<^verbatim>\<open>kirin.core.model\<close> are not part of the
  sources at hand; a fresh update has no status, no delay, no message and, for a trip, an
  empty stop-time sequence.
\<close>

definition StopTimeUpdate :: "'st \<Rightarrow> ('st, 'msg) stop_time_update" where
  "StopTimeUpdate nav_stop =
     \<lparr>navitia_stop = nav_stop, st_message = None, arrival_status = None,
      departure_status = None, arrival_delay = None, departure_delay = None\<rparr>"

definition TripUpdate :: "'vj \<Rightarrow> ('vj, 'st, 'msg) trip_update" where
  "TripUpdate v =
     \<lparr>vj = v, contributor = None, tu_message = None, status = None, stop_time_updates = []\<rparr>"

text \<open>
  What \<^verbatim>\<open>record_internal_failure\<close> and the logger receive: the three messages of
  \<^verbatim>\<open>_make_trip_update\<close>, with the status code they are formatted from, and the log
  entry that the stop lookup hands back.
\<close>

datatype diag =
    TripStatusNotHandled string
  | StopStatusOnlyRemoval string
  | StopStatusNotHandled string
  | Metrology string

text \<open>
  A step of the builder emits diagnostics and then returns or raises; the diagnostics
  emitted before an exception stay emitted.
\<close>

type_synonym 'a logged = "diag list \<times> (error + 'a)"

definition bind_logged :: "'a logged \<Rightarrow> ('a \<Rightarrow> 'b logged) \<Rightarrow> 'b logged" where
  "bind_logged m f =
     (case m of
        (l, Inl e) \<Rightarrow> (l, Inl e)
      | (l, Inr x) \<Rightarrow> (case f x of (l', r) \<Rightarrow> (l @ l', r)))"

definition silent :: "error + 'a \<Rightarrow> 'a logged" where
  "silent r = ([], r)"

definition record_and_log :: "diag \<Rightarrow> 'a \<Rightarrow> 'a logged" where
  "record_and_log d x = ([d], Inr x)"

subsection \<open>Collaborators\<close>

text \<open>
  The builder's collaborators are parameters: the JSON parser (\<open>None\<close> is its
  \<^verbatim>\<open>ValueError\<close>), the date parser, the trip lookup \<^verbatim>\<open>_get_navitia_vjs\<close> of the base
  class, the stop lookup \<^verbatim>\<open>get_navitia_stop_time_sncf\<close> (the stop found, if any, and a log
  entry, if any) and the message handler. The two that raise return their exception's
  message on the left.
\<close>

record ('raw, 'time, 'vj, 'st, 'msg) builder =
  loads :: "'raw \<Rightarrow> json option"
  parse :: "json \<Rightarrow> string + 'time"
  get_navitia_vjs :: "json \<Rightarrow> 'time \<Rightarrow> 'time \<Rightarrow> string + 'vj list"
  get_navitia_stop_time_sncf :: "json \<Rightarrow> json \<Rightarrow> json \<Rightarrow> 'vj \<Rightarrow> 'st option \<times> string option"
  get_message :: "json \<Rightarrow> 'msg option"
  self_contributor :: "string option"

definition external :: "string + 'a \<Rightarrow> error + 'a" where
  "external r = (case r of Inl m \<Rightarrow> Inl (External m) | Inr x \<Rightarrow> Inr x)"

subsection \<open>One direction of one stop\<close>

datatype direction = Arrivee | Depart

fun toggle :: "direction \<Rightarrow> string" where
  "toggle Arrivee = ''Arrivee''"
| "toggle Depart = ''Depart''"

text \<open>The two \<^verbatim>\<open>setattr\<close> calls through \<^verbatim>\<open>_status_map\<close> and \<^verbatim>\<open>_delay_map\<close>.\<close>

fun set_status :: "direction \<Rightarrow> string \<Rightarrow> ('st, 'msg) stop_time_update \<Rightarrow> ('st, 'msg) stop_time_update" where
  "set_status Arrivee v st_update = st_update\<lparr>arrival_status := Some v\<rparr>"
| "set_status Depart v st_update = st_update\<lparr>departure_status := Some v\<rparr>"

fun set_delay :: "direction \<Rightarrow> int option \<Rightarrow> ('st, 'msg) stop_time_update \<Rightarrow> ('st, 'msg) stop_time_update" where
  "set_delay Arrivee v st_update = st_update\<lparr>arrival_delay := v\<rparr>"
| "set_delay Depart v st_update = st_update\<lparr>departure_delay := v\<rparr>"

text \<open>
  The branch of a time-block without status code: the reference and the candidate list
  are read from the point \<open>pdp\<close>.
\<close>

definition projected_update ::
  "json \<Rightarrow> direction \<Rightarrow> ('st, 'msg) stop_time_update \<Rightarrow> error + ('st, 'msg) stop_time_update" where
  "projected_update pdp d st_update =
     bind_result (get_value pdp (''sourceHoraireProjete'' @ toggle d @ ''Reference'') True)
       (\<lambda>cots_ref_planned.
     bind_result (get_value pdp (''listeHoraireProjete'' @ toggle d) True)
       (\<lambda>cots_planned_stop_times.
     bind_result (retrieve_projected_time cots_ref_planned cots_planned_stop_times)
       (\<lambda>cots_planned_stop_time.
     if cots_planned_stop_time = JNull then Inr st_update
     else bind_result (get_value cots_planned_stop_time ''pronosticIV'' True)
       (\<lambda>cots_delay.
     if cots_delay = JNull then Inr st_update
     else bind_result (as_duration cots_delay)
       (\<lambda>delay. Inr (set_delay d delay (set_status d ''update'' st_update)))))))"

text \<open>The body of \<^verbatim>\<open>for arrival_departure_toggle in ['Arrivee', 'Depart']\<close>.\<close>

definition update_direction ::
  "json \<Rightarrow> direction \<Rightarrow> ('st, 'msg) stop_time_update \<Rightarrow> ('st, 'msg) stop_time_update logged" where
  "update_direction pdp d st_update =
     bind_logged (silent (get_value pdp (''horaireVoyageur'' @ toggle d) True))
       (\<lambda>cots_traveler_time.
     if cots_traveler_time = JNull then silent (Inr st_update)
     else bind_logged (silent (get_value cots_traveler_time ''statutCirculationOPE'' True))
       (\<lambda>cots_stop_time_status.
     if cots_stop_time_status = JNull then silent (projected_update pdp d st_update)
     else if cots_stop_time_status = JStr ''SUPPRESSION''
       then silent (Inr (set_status d ''delete'' st_update))
     else if cots_stop_time_status = JStr ''SUPPRESSION_DETOURNEMENT''
       then bind_logged (record_and_log (StopStatusOnlyRemoval ''SUPPRESSION_DETOURNEMENT'') ())
              (\<lambda>_. silent (Inr (set_status d ''delete'' st_update)))
     else if cots_stop_time_status = JStr ''CREATION''
       then record_and_log (StopStatusNotHandled ''CREATION'') st_update
     else if cots_stop_time_status = JStr ''DETOURNEMENT''
       then record_and_log (StopStatusNotHandled ''DETOURNEMENT'') st_update
     else silent (Inl (InvalidArguments (InvalidStatus cots_stop_time_status (toggle d))))))"

subsection \<open>One stop\<close>

definition get_navitia_stop_time ::
  "('raw, 'time, 'vj, 'st, 'msg) builder \<Rightarrow> json \<Rightarrow> 'vj \<Rightarrow> error + ('st option \<times> string option)" where
  "get_navitia_stop_time self pdp nav_vj =
     bind_result (get_value pdp ''cr'' False) (\<lambda>cr.
     bind_result (get_value pdp ''ci'' False) (\<lambda>ci.
     bind_result (get_value pdp ''ch'' False) (\<lambda>ch.
       Inr (get_navitia_stop_time_sncf self cr ci ch nav_vj))))"

text \<open>
  The message of a stop: the departure reference first, the arrival reference when the
  first is empty.
\<close>

definition stop_message ::
  "('raw, 'time, 'vj, 'st, 'msg) builder \<Rightarrow> json \<Rightarrow> ('st, 'msg) stop_time_update \<Rightarrow>
   error + ('st, 'msg) stop_time_update" where
  "stop_message self pdp st_update =
     bind_result (get_value pdp ''idMotifInterneDepartReference'' True) (\<lambda>dep_id.
     bind_result (if \<not> truthy dep_id then get_value pdp ''idMotifInterneArriveeReference'' True
                  else Inr dep_id) (\<lambda>st_message_id.
       if truthy st_message_id
       then Inr (st_update\<lparr>st_message := get_message self st_message_id\<rparr>)
       else Inr st_update))"

text \<open>
  The body of \<^verbatim>\<open>for pdp in pdps\<close>: \<open>None\<close> is the \<^verbatim>\<open>continue\<close> on a stop that
  the lookup does not know, \<open>Some\<close> the update appended to the trip.
\<close>

definition stop_update ::
  "('raw, 'time, 'vj, 'st, 'msg) builder \<Rightarrow> 'vj \<Rightarrow> json \<Rightarrow>
   ('st, 'msg) stop_time_update option logged" where
  "stop_update self v pdp =
     bind_logged (silent (get_navitia_stop_time self pdp v)) (\<lambda>(nav_st, log_dict).
     bind_logged (case log_dict of None \<Rightarrow> silent (Inr ()) | Some l \<Rightarrow> record_and_log (Metrology l) ())
       (\<lambda>_.
     case nav_st of
       None \<Rightarrow> silent (Inr None)
     | Some nav_stop \<Rightarrow>
         bind_logged (silent (stop_message self pdp (StopTimeUpdate nav_stop))) (\<lambda>st0.
         bind_logged (update_direction pdp Arrivee st0) (\<lambda>st1.
         bind_logged (update_direction pdp Depart st1) (\<lambda>st2.
           silent (Inr (Some st2)))))))"

fun stop_updates ::
  "('raw, 'time, 'vj, 'st, 'msg) builder \<Rightarrow> 'vj \<Rightarrow> json list \<Rightarrow>
   ('st, 'msg) stop_time_update list logged" where
  "stop_updates self v [] = silent (Inr [])"
| "stop_updates self v (pdp # pdps) =
     bind_logged (stop_update self v pdp) (\<lambda>st.
     bind_logged (stop_updates self v pdps) (\<lambda>sts.
       silent (Inr (case st of None \<Rightarrow> sts | Some st_update \<Rightarrow> st_update # sts))))"

subsection \<open>One trip\<close>

definition make_trip_update ::
  "('raw, 'time, 'vj, 'st, 'msg) builder \<Rightarrow> 'vj \<Rightarrow> json \<Rightarrow> ('vj, 'st, 'msg) trip_update logged" where
  "make_trip_update self v json_train =
     (let trip_update = (TripUpdate v)\<lparr>contributor := self_contributor self\<rparr> in
      bind_logged (silent (get_value json_train ''idMotifInterneReference'' True))
        (\<lambda>trip_message_id.
      let trip_update =
            (if truthy trip_message_id
             then trip_update\<lparr>tu_message := get_message self trip_message_id\<rparr>
             else trip_update) in
      bind_logged (silent (get_value json_train ''statutOperationnel'' False))
        (\<lambda>trip_status.
      if trip_status = JStr ''SUPPRIMEE''
        then silent (Inr (trip_update\<lparr>status := Some ''delete'', stop_time_updates := []\<rparr>))
      else if trip_status = JStr ''AJOUTEE''
        then record_and_log (TripStatusNotHandled ''AJOUTEE'') trip_update
      else
        let trip_update = trip_update\<lparr>status := Some ''update''\<rparr> in
        bind_logged (silent (get_value json_train ''listePointDeParcours'' False))
          (\<lambda>list_pdp.
        bind_logged (silent (retrieve_interesting_pdp list_pdp))
          (\<lambda>pdps.
        bind_logged (stop_updates self v pdps)
          (\<lambda>sts. silent (Inr (trip_update
                 \<lparr>stop_time_updates := stop_time_updates trip_update @ sts\<rparr>))))))))"

subsection \<open>The trips of a feed message\<close>

text \<open>
  \<^verbatim>\<open>pdps[0]\<close> and \<^verbatim>\<open>pdps[-1]\<close> are read after the emptiness check, so the list
  has a first and a last element there.
\<close>

definition get_vjs ::
  "('raw, 'time, 'vj, 'st, 'msg) builder \<Rightarrow> json \<Rightarrow> error + 'vj list" where
  "get_vjs self json_train =
     bind_result (get_value json_train ''numeroCourse'' False) (\<lambda>train_numbers.
     bind_result (get_value json_train ''listePointDeParcours'' False) (\<lambda>list_pdp.
     bind_result (retrieve_interesting_pdp list_pdp) (\<lambda>pdps.
     if pdps = [] then Inl (InvalidArguments (NoValidStopTime json_train))
     else
     bind_result (get_value (hd pdps) ''horaireVoyageurDepart'' False) (\<lambda>dep.
     bind_result (get_value dep ''dateHeure'' False) (\<lambda>str_time_start.
     bind_result (external (parse self str_time_start)) (\<lambda>vj_start.
     bind_result (get_value (last pdps) ''horaireVoyageurArrivee'' False) (\<lambda>arr.
     bind_result (get_value arr ''dateHeure'' False) (\<lambda>str_time_end.
     bind_result (external (parse self str_time_end)) (\<lambda>vj_end.
       external (get_navitia_vjs self train_numbers vj_start vj_end))))))))))"

text \<open>The list comprehension of \<^verbatim>\<open>build\<close>: the first exception ends it.\<close>

fun trip_updates ::
  "('raw, 'time, 'vj, 'st, 'msg) builder \<Rightarrow> json \<Rightarrow> 'vj list \<Rightarrow>
   ('vj, 'st, 'msg) trip_update list logged" where
  "trip_updates self dict_version [] = silent (Inr [])"
| "trip_updates self dict_version (v # vjs) =
     bind_logged (make_trip_update self v dict_version) (\<lambda>tu.
     bind_logged (trip_updates self dict_version vjs) (\<lambda>tus.
       silent (Inr (tu # tus))))"

text \<open>
  \<^verbatim>\<open>'nouvelleVersion' not in json\<close>: a key of a dict, an element of a list, a substring
  of a string; a number and \<^verbatim>\<open>None\<close> are not containers.
\<close>

fun starts_with :: "string \<Rightarrow> string \<Rightarrow> bool" where
  "starts_with [] s = True"
| "starts_with (k # ks) [] = False"
| "starts_with (k # ks) (c # cs) = (k = c \<and> starts_with ks cs)"

fun substring :: "string \<Rightarrow> string \<Rightarrow> bool" where
  "substring k [] = (k = [])"
| "substring k (c # cs) = (starts_with k (c # cs) \<or> substring k cs)"

fun py_in :: "string \<Rightarrow> json \<Rightarrow> error + bool" where
  "py_in key (JObj kvs) = Inr (key \<in> set (map fst kvs))"
| "py_in key (JArr xs) = Inr (JStr key \<in> set xs)"
| "py_in key (JStr s) = Inr (substring key s)"
| "py_in key _ = Inl TypeError"

definition build ::
  "('raw, 'time, 'vj, 'st, 'msg) builder \<Rightarrow> 'raw \<Rightarrow> ('vj, 'st, 'msg) trip_update list logged" where
  "build self raw_data =
     (case loads self raw_data of
        None \<Rightarrow> silent (Inl (InvalidArguments InvalidJson))
      | Some json \<Rightarrow>
          bind_logged (silent (py_in ''nouvelleVersion'' json)) (\<lambda>present.
          if \<not> present then silent (Inl (InvalidArguments NoNouvelleVersion))
          else
          bind_logged (silent (get_value json ''nouvelleVersion'' False)) (\<lambda>dict_version.
          bind_logged (silent (get_vjs self dict_version)) (\<lambda>vjs.
            trip_updates self dict_version vjs))))"

section \<open>Vocabulary of the statements\<close>

fun is_obj :: "json \<Rightarrow> bool" where
  "is_obj (JObj kvs) = True"
| "is_obj _ = False"

text \<open>What \<^verbatim>\<open>get_value(pdp, key, nullable=True)\<close> returns on a dict.\<close>

definition field :: "json \<Rightarrow> string \<Rightarrow> json" where
  "field pdp key = (case get_value pdp key True of Inl e \<Rightarrow> JNull | Inr v \<Rightarrow> v)"

definition has_departure :: "json \<Rightarrow> bool" where
  "has_departure pdp = truthy (field pdp ''horaireVoyageurDepart'')"

definition has_arrival :: "json \<Rightarrow> bool" where
  "has_arrival pdp = truthy (field pdp ''horaireVoyageurArrivee'')"

definition station :: "json \<Rightarrow> bool" where
  "station pdp = (is_station pdp = Inr True)"

section \<open>A sample feed\<close>

text \<open>
  Three points of a circulation: the origin, a passing point that is no station, and the
  terminus.
\<close>

definition ex_origin :: json where
  "ex_origin = JObj [(''cr'', JStr ''0087''), (''ci'', JStr ''713065''), (''ch'', JStr ''BV''),
     (''typeArret'', JStr ''CD''),
     (''horaireVoyageurDepart'', JObj [(''dateHeure'', JStr ''2012-11-20T14:00:00'')])]"

definition ex_passing :: json where
  "ex_passing = JObj [(''cr'', JStr ''0087''), (''ci'', JStr ''713545''), (''ch'', JStr ''00''),
     (''typeArret'', JStr ''PP''),
     (''horaireVoyageurDepart'', JObj [(''dateHeure'', JStr ''2012-11-20T14:10:00'')])]"

definition ex_terminus :: json where
  "ex_terminus = JObj [(''cr'', JStr ''0087''), (''ci'', JStr ''718015''), (''ch'', JStr ''BV''),
     (''horaireVoyageurArrivee'', JObj [(''dateHeure'', JStr ''2012-11-20T15:00:00'')])]"

text \<open>
  Collaborators for running the builder on the sample feed: the parsed value is handed
  over as it is, a date is any string, two train numbers are known, and one stop is
  unknown to the stop lookup.
\<close>

definition ex_builder :: "(json, string, nat, string, string) builder" where
  "ex_builder =
     \<lparr>loads = Some,
      parse = (\<lambda>j. case j of JStr s \<Rightarrow> Inr s | _ \<Rightarrow> Inl ''not a date''),
      get_navitia_vjs = (\<lambda>train_numbers vj_start vj_end.
         if train_numbers = JStr ''006113/4'' then Inr [6113, 6114]
         else if train_numbers = JStr ''096231'' then Inr [96231]
         else Inl ''no train found''),
      get_navitia_stop_time_sncf = (\<lambda>cr ci ch nav_vj.
         case ci of JStr s \<Rightarrow> (if s = ''713545'' then (None, Some ''missing stop point'')
                                else (Some s, None))
                  | _ \<Rightarrow> (None, Some ''missing stop point'')),
      get_message = (\<lambda>index. case index of JStr s \<Rightarrow> Some s | _ \<Rightarrow> None),
      self_contributor = Some ''realtime.cots''\<rparr>"

text \<open>
  Feed messages around the sample points, and a point whose departure block carries a
  status code and no date.
\<close>

definition ex_train :: "string \<Rightarrow> string \<Rightarrow> json list \<Rightarrow> json" where
  "ex_train train_numbers trip_status list_pdp =
     JObj [(''numeroCourse'', JStr train_numbers), (''statutOperationnel'', JStr trip_status),
           (''listePointDeParcours'', JArr list_pdp)]"

definition ex_feed :: "json \<Rightarrow> json" where
  "ex_feed json_train = JObj [(''nouvelleVersion'', json_train)]"

definition ex_undated :: json where
  "ex_undated = JObj [(''cr'', JStr ''0087''), (''ci'', JStr ''713065''), (''ch'', JStr ''BV''),
     (''horaireVoyageurDepart'', JObj [(''statutCirculationOPE'', JStr ''SUPPRESSION'')])]"

definition ex_no_departure_train :: json where
  "ex_no_departure_train = ex_train ''096231'' ''PERTURBEE'' [ex_terminus]"

definition ex_undated_train :: json where
  "ex_undated_train = ex_train ''096231'' ''PERTURBEE'' [ex_undated, ex_terminus]"

text \<open>Two projected-time candidates, told apart by their source.\<close>

definition ex_escale :: json where
  "ex_escale = JObj [(''source'', JStr ''ESCALE''), (''pronosticIV'', JNum 900)]"

definition ex_siph :: json where
  "ex_siph = JObj [(''source'', JStr ''SIPH''), (''pronosticIV'', JNum (- 400))]"

text \<open>The sample circulation, removed as a whole and added from scratch.\<close>

definition ex_points_list :: "json list" where
  "ex_points_list = [ex_origin, ex_passing, ex_terminus]"

definition ex_suppressed_train :: json where
  "ex_suppressed_train = ex_train ''096231'' ''SUPPRIMEE'' ex_points_list"

definition ex_added_train :: json where
  "ex_added_train = ex_train ''096231'' ''AJOUTEE'' ex_points_list"

text \<open>
  The origin with one projected departure, 900 seconds late, given beside the time-block;
  and the same origin with the projection written inside the time-block.
\<close>

definition ex_delayed_origin :: json where
  "ex_delayed_origin = JObj [(''cr'', JStr ''0087''), (''ci'', JStr ''713065''), (''ch'', JStr ''BV''),
     (''typeArret'', JStr ''CD''),
     (''horaireVoyageurDepart'', JObj [(''dateHeure'', JStr ''2012-11-20T14:00:00'')]),
     (''listeHoraireProjeteDepart'', JArr [JObj [(''pronosticIV'', JNum 900)]])]"



text \<open>
  A delayed circulation whose terminus is no longer served, with the updates the builder
  makes of it; an origin whose departure block carries a status code that the feed does not
  define, in a running and in a removed circulation; and the same block on a station that the
  stop lookup does not know.
\<close>

definition ex_suppressed_terminus :: json where
  "ex_suppressed_terminus = JObj [(''cr'', JStr ''0087''), (''ci'', JStr ''718015''), (''ch'', JStr ''BV''),
     (''horaireVoyageurArrivee'', JObj [(''dateHeure'', JStr ''2012-11-20T15:00:00''),
        (''statutCirculationOPE'', JStr ''SUPPRESSION'')])]"

definition ex_delayed_train :: json where
  "ex_delayed_train =
     ex_train ''096231'' ''PERTURBEE'' [ex_delayed_origin, ex_passing, ex_suppressed_terminus]"

definition ex_invalid_block :: json where
  "ex_invalid_block = JObj [(''dateHeure'', JStr ''2012-11-20T14:00:00''),
        (''statutCirculationOPE'', JStr ''RETARD'')]"

definition ex_invalid_origin :: json where
  "ex_invalid_origin = JObj [(''cr'', JStr ''0087''), (''ci'', JStr ''713065''), (''ch'', JStr ''BV''),
     (''typeArret'', JStr ''CD''), (''horaireVoyageurDepart'', ex_invalid_block)]"

definition ex_invalid_train :: json where
  "ex_invalid_train = ex_train ''096231'' ''PERTURBEE'' [ex_invalid_origin, ex_passing, ex_terminus]"

definition ex_suppressed_invalid_train :: json where
  "ex_suppressed_invalid_train =
     ex_train ''096231'' ''SUPPRIMEE'' [ex_invalid_origin, ex_passing, ex_terminus]"

definition ex_unknown_invalid :: json where
  "ex_unknown_invalid = JObj [(''cr'', JStr ''0087''), (''ci'', JStr ''713545''), (''ch'', JStr ''00''),
     (''typeArret'', JStr ''CD''), (''horaireVoyageurDepart'', ex_invalid_block)]"

definition ex_unknown_invalid_train :: json where
  "ex_unknown_invalid_train =
     ex_train ''096231'' ''PERTURBEE'' [ex_origin, ex_unknown_invalid, ex_terminus]"

definition ex_origin_update :: "(string, string) stop_time_update" where
  "ex_origin_update = \<lparr>navitia_stop = ''713065'', st_message = None, arrival_status = None,
     departure_status = Some ''update'', arrival_delay = None, departure_delay = Some 900\<rparr>"

definition ex_terminus_update :: "(string, string) stop_time_update" where
  "ex_terminus_update = \<lparr>navitia_stop = ''718015'', st_message = None,
     arrival_status = Some ''delete'', departure_status = None, arrival_delay = None,
     departure_delay = None\<rparr>"

definition ex_delayed_update :: "(nat, string, string) trip_update" where
  "ex_delayed_update = \<lparr>vj = 96231, contributor = Some ''realtime.cots'', tu_message = None,
     status = Some ''update'', stop_time_updates = [ex_origin_update, ex_terminus_update]\<rparr>"

text \<open>The pairing of status and delay, for both directions of a stop-time update.\<close>

definition consistent :: "('st, 'msg) stop_time_update \<Rightarrow> bool" where
  "consistent st \<longleftrightarrow>
     (arrival_status st = Some ''update'' \<longrightarrow> arrival_delay st \<noteq> None) \<and>
     (arrival_status st = Some ''delete'' \<longrightarrow> arrival_delay st = None) \<and>
     (departure_status st = Some ''update'' \<longrightarrow> departure_delay st \<noteq> None) \<and>
     (departure_status st = Some ''delete'' \<longrightarrow> departure_delay st = None)"

section \<open>The filter on lists of objects\<close>

text \<open>
  On a dict every nullable read succeeds, so one step of the loop is a case distinction on
  the point's station type and time-blocks.
\<close>

lemma get_value_nullable: "get_value p k True = (if is_obj p then Inr (field p k) else Inl AttributeError)"
  by (cases p) (simp_all add: field_def Let_def)

lemma is_station_obj: "is_station p = (if is_obj p then Inr (station p) else Inl AttributeError)"
  by (cases p) (auto simp add: station_def is_station_def bind_result_def Let_def)

lemma hfa_obj:
  "list_all is_obj xs \<Longrightarrow> has_following_arrival xs = Inr (\<exists>f\<in>set xs. has_arrival f \<and> station f)"
  by (induction xs) (auto simp add: get_value_nullable is_station_obj bind_result_def has_arrival_def)

lemma pdp_loop_step:
  "pdp_loop res picked (p # rest) =
    (if \<not> is_obj p then Inl AttributeError
     else if \<not> picked \<and> \<not> has_departure p then pdp_loop res picked rest
     else if \<not> station p then pdp_loop res picked rest
     else if \<not> has_departure p \<and> \<not> has_arrival p then pdp_loop res picked rest
     else if has_arrival p then pdp_loop (res @ [p]) True rest
     else bind_result (has_following_arrival rest)
            (\<lambda>has. if has then pdp_loop (res @ [p]) True rest else Inr res))"
  by (auto simp add: get_value_nullable is_station_obj bind_result_def has_arrival_def has_departure_def
      split: sum.splits)

lemma hfa_step:
  "has_following_arrival (p # rest) =
    (if \<not> is_obj p then Inl AttributeError
     else if has_arrival p \<and> station p then Inr True
     else has_following_arrival rest)"
  by (simp add: get_value_nullable is_station_obj bind_result_def has_arrival_def)

declare has_following_arrival.simps(2) [simp del]
declare pdp_loop.simps(2) [simp del]

lemma pdp_loop_acc:
  "pdp_loop res picked xs = bind_result (pdp_loop [] picked xs) (\<lambda>ys. Inr (res @ ys))"
proof (induction xs arbitrary: res picked)
  case Nil
  then show ?case by (simp add: bind_result_def)
next
  case (Cons p rest)
  have a: "pdp_loop (res @ [p]) True rest = bind_result (pdp_loop [] True rest) (\<lambda>ys. Inr (res @ p # ys))"
    using Cons.IH [of "res @ [p]" True] by simp
  have b: "pdp_loop [p] True rest = bind_result (pdp_loop [] True rest) (\<lambda>ys. Inr (p # ys))"
    using Cons.IH [of "[p]" True] by simp
  have c: "\<And>pk. pdp_loop res pk rest = bind_result (pdp_loop [] pk rest) (\<lambda>ys. Inr (res @ ys))"
    using Cons.IH [of "res"] by simp
  show ?case
    by (simp add: pdp_loop_step a b c bind_result_def split: sum.splits)
qed

lemma pdp_loop_ConsE:
  assumes "pdp_loop [] picked (p # rest) = Inr ys"
  obtains
    (skip) "is_obj p" "pdp_loop [] picked rest = Inr ys"
      "\<not> (station p \<and> (picked \<or> has_departure p) \<and> (has_departure p \<or> has_arrival p))"
  | (stop) "ys = []" "is_obj p" "station p" "has_departure p" "\<not> has_arrival p"
      "has_following_arrival rest = Inr False"
  | (keep) ys' where "ys = p # ys'" "pdp_loop [] True rest = Inr ys'" "is_obj p" "station p"
      "picked \<or> has_departure p" "has_departure p \<or> has_arrival p"
      "has_arrival p \<or> has_following_arrival rest = Inr True"
  using assms
  by (simp add: pdp_loop_step pdp_loop_acc [of "[p]"] bind_result_def
      split: if_splits sum.splits) blast+

lemma hfa_kept:
  "has_following_arrival xs = Inr True \<Longrightarrow> pdp_loop [] True xs = Inr ys \<Longrightarrow>
   has_following_arrival ys = Inr True"
proof (induction xs arbitrary: ys)
  case Nil
  then show ?case by simp
next
  case (Cons p rest)
  from Cons.prems(2) show ?case
  proof (cases rule: pdp_loop_ConsE)
    case skip
    with Cons.prems(1) have "has_following_arrival rest = Inr True"
      by (auto simp add: hfa_step split: if_splits)
    with skip Cons.IH show ?thesis by simp
  next
    case stop
    with Cons.prems(1) show ?thesis by (simp add: hfa_step)
  next
    case (keep ys')
    show ?thesis
    proof (cases "has_arrival p")
      case True
      with keep show ?thesis by (simp add: hfa_step)
    next
      case False
      with keep Cons.prems(1) have "has_following_arrival rest = Inr True"
        by (simp add: hfa_step)
      with keep Cons.IH have "has_following_arrival ys' = Inr True" by simp
      with keep False show ?thesis by (simp add: hfa_step)
    qed
  qed
qed

lemma pdp_loop_last_arrival:
  "pdp_loop [] picked xs = Inr ys \<Longrightarrow> ys \<noteq> [] \<Longrightarrow> has_arrival (last ys)"
proof (induction xs arbitrary: ys picked)
  case Nil
  then show ?case by simp
next
  case (Cons p rest)
  from Cons.prems(1) show ?case
  proof (cases rule: pdp_loop_ConsE)
    case skip
    with Cons show ?thesis by blast
  next
    case stop
    with Cons.prems show ?thesis by simp
  next
    case (keep ys')
    show ?thesis
    proof (cases "ys' = []")
      case True
      have "has_arrival p"
      proof (rule ccontr)
        assume "\<not> has_arrival p"
        with keep have "has_following_arrival rest = Inr True" by simp
        from hfa_kept [OF this keep(2)] True show False by simp
      qed
      with keep True show ?thesis by simp
    next
      case False
      with keep Cons.IH [of True ys'] show ?thesis by simp
    qed
  qed
qed

lemma pdp_loop_first_departure:
  "pdp_loop [] False xs = Inr (y # ys) \<Longrightarrow> has_departure y"
proof (induction xs)
  case Nil
  then show ?case by simp
next
  case (Cons p rest)
  from Cons.prems show ?case
    by (cases rule: pdp_loop_ConsE) (use Cons.IH in auto)
qed

lemma pdp_loop_idem_True:
  "pdp_loop [] picked xs = Inr ys \<Longrightarrow> pdp_loop [] True ys = Inr ys"
proof (induction xs arbitrary: ys picked)
  case Nil
  then show ?case by simp
next
  case (Cons p rest)
  from Cons.prems(1) show ?case
  proof (cases rule: pdp_loop_ConsE)
    case skip
    with Cons show ?thesis by blast
  next
    case stop
    then show ?thesis by simp
  next
    case (keep ys')
    from keep Cons.IH [of True ys'] have ih: "pdp_loop [] True ys' = Inr ys'" by simp
    have "has_arrival p \<or> has_following_arrival ys' = Inr True"
      using keep hfa_kept [of rest ys'] by blast
    with keep ih show ?thesis
      by (auto simp add: pdp_loop_step pdp_loop_acc [of "[p]"] bind_result_def)
  qed
qed

lemma pdp_loop_kept:
  "pdp_loop [] picked xs = Inr ys \<Longrightarrow> y \<in> set ys \<Longrightarrow>
   y \<in> set xs \<and> is_obj y \<and> station y \<and> (has_departure y \<or> has_arrival y)"
proof (induction xs arbitrary: ys picked)
  case Nil
  then show ?case by simp
next
  case (Cons p rest)
  from Cons.prems(1) show ?case
  proof (cases rule: pdp_loop_ConsE)
    case skip
    with Cons.IH [of picked ys] Cons.prems(2) show ?thesis by simp
  next
    case stop
    with Cons.prems show ?thesis by simp
  next
    case (keep ys')
    with Cons.IH [of True ys'] Cons.prems(2) show ?thesis by auto
  qed
qed

lemma pdp_loop_idem:
  assumes "pdp_loop [] False xs = Inr ys"
  shows "pdp_loop [] False ys = Inr ys"
proof (cases ys)
  case Nil
  then show ?thesis by simp
next
  case (Cons y ys')
  with assms have "has_departure y" by (simp add: pdp_loop_first_departure)
  moreover from Cons pdp_loop_kept [OF assms, of y] have "is_obj y" "station y" by simp_all
  ultimately have "pdp_loop [] False (y # ys') = pdp_loop [] True (y # ys')"
    by (simp add: pdp_loop_step)
  with Cons pdp_loop_idem_True [OF assms] show ?thesis by simp
qed

section \<open>Properties of the stop relevance filter\<close>

lemmas ex_points = ex_origin_def ex_passing_def ex_terminus_def

lemmas obj_simps = has_departure_def has_arrival_def station_def field_def is_station_def
  bind_result_def

lemma ex_filter:
  "retrieve_interesting_pdp (JArr [ex_origin, ex_passing, ex_terminus]) = Inr [ex_origin, ex_terminus]"
  by (simp add: pdp_loop_step hfa_step ex_points obj_simps)

text \<open>
  C6. The filter is idempotent: whenever it returns a list, filtering that list again
  returns it unchanged.
\<close>

theorem filter_idempotent:
  assumes "retrieve_interesting_pdp list_pdp = Inr pdps"
  shows "retrieve_interesting_pdp (JArr pdps) = Inr pdps"
proof (cases list_pdp)
  case (JArr xs)
  with assms show ?thesis by (simp add: pdp_loop_idem)
next
  case (JObj kvs)
  with assms show ?thesis by (simp split: if_splits)
next
  case (JStr s)
  with assms show ?thesis by (simp split: if_splits)
qed (use assms in simp_all)

theorem filter_idempotent_witness:
  "retrieve_interesting_pdp (JArr [ex_origin, ex_passing, ex_terminus]) = Inr [ex_origin, ex_terminus]
   \<and> retrieve_interesting_pdp (JArr [ex_origin, ex_terminus]) = Inr [ex_origin, ex_terminus]"
  using filter_idempotent [OF ex_filter] ex_filter by simp

lemma hfa_append_trailing:
  assumes "list_all is_obj trailing" "\<not> (\<exists>f\<in>set trailing. has_arrival f \<and> station f)"
  shows "has_following_arrival (xs @ trailing) = has_following_arrival xs"
proof (induction xs)
  case Nil
  with assms hfa_obj [of trailing] show ?case by simp
next
  case (Cons x xs)
  then show ?case by (simp add: hfa_step)
qed

lemma pdp_loop_only_trailing:
  assumes "list_all is_obj trailing" "\<not> (\<exists>f\<in>set trailing. has_arrival f \<and> station f)"
  shows "pdp_loop res picked trailing = Inr res"
  using assms
proof (induction trailing)
  case Nil
  then show ?case by simp
next
  case (Cons p rest)
  then have "has_following_arrival rest = Inr False"
    using hfa_obj [of rest] by simp
  with Cons show ?case by (auto simp add: pdp_loop_step bind_result_def)
qed

lemma pdp_loop_trailing:
  assumes "list_all is_obj trailing" "\<not> (\<exists>f\<in>set trailing. has_arrival f \<and> station f)"
  shows "pdp_loop res picked (front @ trailing) = pdp_loop res picked front"
proof (induction front arbitrary: res picked)
  case Nil
  with assms show ?case by (simp add: pdp_loop_only_trailing)
next
  case (Cons p rest)
  show ?case
    by (simp add: pdp_loop_step Cons.IH hfa_append_trailing [OF assms] bind_result_def
        split: sum.splits)
qed

lemma hfa_exists:
  "\<exists>f\<in>set zs. has_arrival f \<and> station f \<Longrightarrow> has_following_arrival zs \<noteq> Inr False"
  by (induction zs) (auto simp add: hfa_step)

lemma pdp_loop_res:
  "pdp_loop res picked xs = Inr ys \<Longrightarrow> set res \<subseteq> set ys"
  by (subst (asm) pdp_loop_acc) (auto simp add: bind_result_def split: sum.splits)

lemma pdp_loop_keeps:
  assumes "is_obj p" "station p" "has_departure p" "\<exists>f\<in>set rest. has_arrival f \<and> station f"
  shows "pdp_loop res picked (front @ p # rest) = Inr ys \<Longrightarrow> p \<in> set ys"
proof (induction front arbitrary: res picked)
  case Nil
  from assms(4) have "has_following_arrival rest \<noteq> Inr False" by (rule hfa_exists)
  with Nil assms(1-3) have "pdp_loop (res @ [p]) True rest = Inr ys"
    by (auto simp add: pdp_loop_step bind_result_def split: if_splits sum.splits)
  from pdp_loop_res [OF this] show ?case by simp
next
  case (Cons x front)
  from assms(4) have "\<exists>f\<in>set (front @ p # rest). has_arrival f \<and> station f" by auto
  then have "has_following_arrival (front @ p # rest) \<noteq> Inr False" by (rule hfa_exists)
  with Cons.prems have "\<exists>res' picked'. pdp_loop res' picked' (front @ p # rest) = Inr ys"
    by (auto simp add: pdp_loop_step bind_result_def split: if_splits sum.splits)
  with Cons.IH show ?case by blast
qed

text \<open>
  C5. The test on arrival blocks is reached by station points only, the others being
  dropped before it. A station point with a departure block and no arrival block is kept
  when a later station point has an arrival block: the loop appends it and goes on, and it
  is in the result. Otherwise the loop ends there and returns what it has collected, so the
  result is that of the list cut before the point. Points at the end of the list among which
  no station has an arrival block add nothing to the result, whatever departure blocks they
  have.
\<close>

theorem departure_only_point:
  assumes "is_obj p" "station p" "has_departure p" "\<not> has_arrival p" "list_all is_obj rest"
  shows "pdp_loop res picked_one (p # rest) =
           (if \<exists>f\<in>set rest. has_arrival f \<and> station f
            then pdp_loop (res @ [p]) True rest else Inr res)
       \<and> ((\<exists>f\<in>set rest. has_arrival f \<and> station f) \<longrightarrow>
            (\<forall>pdps. retrieve_interesting_pdp (JArr (front @ p # rest)) = Inr pdps \<longrightarrow> p \<in> set pdps))
       \<and> (\<not> (\<exists>f\<in>set rest. has_arrival f \<and> station f) \<longrightarrow>
            retrieve_interesting_pdp (JArr (front @ p # rest)) = retrieve_interesting_pdp (JArr front))
       \<and> (list_all is_obj trailing \<and> \<not> (\<exists>f\<in>set trailing. has_arrival f \<and> station f) \<longrightarrow>
            retrieve_interesting_pdp (JArr (front @ trailing)) = retrieve_interesting_pdp (JArr front))"
proof -
  have step: "pdp_loop res picked_one (p # rest) =
           (if \<exists>f\<in>set rest. has_arrival f \<and> station f
            then pdp_loop (res @ [p]) True rest else Inr res)"
    using assms by (simp add: pdp_loop_step hfa_obj bind_result_def)
  have kept: "p \<in> set pdps"
    if "\<exists>f\<in>set rest. has_arrival f \<and> station f"
      "retrieve_interesting_pdp (JArr (front @ p # rest)) = Inr pdps" for pdps
    using pdp_loop_keeps [OF assms(1-3) that(1), of "[]" False front pdps] that(2) by simp
  have dropped: "retrieve_interesting_pdp (JArr (front @ p # rest)) =
      retrieve_interesting_pdp (JArr front)"
    if "\<not> (\<exists>f\<in>set rest. has_arrival f \<and> station f)"
    using pdp_loop_trailing [of "p # rest" "[]" False front] assms that by simp
  have trailing: "retrieve_interesting_pdp (JArr (front @ trailing)) =
      retrieve_interesting_pdp (JArr front)"
    if "list_all is_obj trailing" "\<not> (\<exists>f\<in>set trailing. has_arrival f \<and> station f)"
    using pdp_loop_trailing [OF that, of "[]" False front] by simp
  from step kept dropped trailing show ?thesis by blast
qed

theorem departure_only_point_witness:
  "is_obj ex_origin \<and> station ex_origin \<and> has_departure ex_origin \<and> \<not> has_arrival ex_origin
   \<and> list_all is_obj [ex_passing, ex_terminus]
   \<and> (\<exists>f\<in>set [ex_passing, ex_terminus]. has_arrival f \<and> station f)
   \<and> pdp_loop [] False [ex_origin, ex_passing, ex_terminus] =
       pdp_loop [ex_origin] True [ex_passing, ex_terminus]
   \<and> retrieve_interesting_pdp (JArr [ex_origin, ex_passing, ex_terminus]) = Inr [ex_origin, ex_terminus]
   \<and> ex_origin \<in> set [ex_origin, ex_terminus]
   \<and> list_all is_obj [ex_passing]
   \<and> \<not> (\<exists>f\<in>set [ex_passing]. has_arrival f \<and> station f)
   \<and> retrieve_interesting_pdp (JArr ([ex_origin, ex_terminus] @ ex_origin # [ex_passing])) =
       retrieve_interesting_pdp (JArr [ex_origin, ex_terminus])"
proof -
  have p: "is_obj ex_origin" "station ex_origin" "has_departure ex_origin" "\<not> has_arrival ex_origin"
    by (simp_all add: ex_points obj_simps)
  have r: "list_all is_obj [ex_passing, ex_terminus]" and r': "list_all is_obj [ex_passing]"
    by (simp_all add: ex_points)
  have a: "\<exists>f\<in>set [ex_passing, ex_terminus]. has_arrival f \<and> station f"
    and n: "\<not> (\<exists>f\<in>set [ex_passing]. has_arrival f \<and> station f)"
    by (simp_all add: ex_points obj_simps)
  note t = departure_only_point [OF p r, of "[]" False "[]"]
  note u = departure_only_point [OF p r', of _ _ "[ex_origin, ex_terminus]"]
  from t a have 1: "pdp_loop [] False [ex_origin, ex_passing, ex_terminus] =
       pdp_loop [ex_origin] True [ex_passing, ex_terminus]"
    by simp
  from t a ex_filter have 2: "ex_origin \<in> set [ex_origin, ex_terminus]"
    by simp
  from u [THEN conjunct2, THEN conjunct2, THEN conjunct1] n
  have 3: "retrieve_interesting_pdp (JArr ([ex_origin, ex_terminus] @ ex_origin # [ex_passing])) =
       retrieve_interesting_pdp (JArr [ex_origin, ex_terminus])"
    by (rule mp)
  from p r a 1 ex_filter 2 r' n 3 show ?thesis by (intro conjI)
qed

section \<open>The filter inside the builder\<close>

lemmas ex_feeds = ex_train_def ex_feed_def

lemma get_value_error:
  "get_value j k nullable = Inl e \<Longrightarrow>
   e = AttributeError \<and> \<not> is_obj j \<or>
   e = InvalidArguments (MissingKey k j) \<and> is_obj j \<and> field j k = JNull \<and> \<not> nullable"
  by (cases j) (auto simp add: field_def Let_def split: if_splits option.splits)

lemma get_value_required:
  "get_value j k False =
     (if \<not> is_obj j then Inl AttributeError
      else if field j k = JNull then Inl (InvalidArguments (MissingKey k j))
      else Inr (field j k))"
  by (cases j) (auto simp add: field_def Let_def split: option.splits)

lemma external_error: "external r = Inl e \<Longrightarrow> \<exists>m. e = External m"
  by (cases r) (auto simp add: external_def)

lemma py_in_present: "get_value j k False = Inr v \<Longrightarrow> py_in k j = Inr True"
proof (cases j)
  case (JObj kvs)
  assume "get_value j k False = Inr v"
  with JObj obtain w where "map_of kvs k = Some w"
    by (auto simp add: Let_def split: option.splits if_splits)
  then have "(k, w) \<in> set kvs" by (rule map_of_SomeD)
  then have "k \<in> fst ` set kvs" by force
  with JObj show ?thesis by simp
qed simp_all

lemma pdp_loop_no_departure:
  "list_all (\<lambda>pdp. is_obj pdp \<and> \<not> has_departure pdp) list_pdp \<Longrightarrow> pdp_loop res False list_pdp = Inr res"
  by (induction list_pdp) (simp_all add: pdp_loop_step)

text \<open>
  C7. When no point of the list has a departure block, the filter returns the empty list
  and \<^verbatim>\<open>_get_vjs\<close>, hence \<^verbatim>\<open>build\<close>, fails with
  \<^verbatim>\<open>InvalidArguments\<close>: for the empty list of stops when the train number is there,
  for the missing train number otherwise.
\<close>

theorem no_departure_rejected:
  assumes "list_all (\<lambda>pdp. is_obj pdp \<and> \<not> has_departure pdp) list_pdp"
  shows "retrieve_interesting_pdp (JArr list_pdp) = Inr []
       \<and> (get_value json_train ''listePointDeParcours'' False = Inr (JArr list_pdp) \<longrightarrow>
            (\<exists>r. get_vjs self json_train = Inl (InvalidArguments r))
          \<and> (\<forall>n. get_value json_train ''numeroCourse'' False = Inr n \<longrightarrow>
                get_vjs self json_train = Inl (InvalidArguments (NoValidStopTime json_train)))
          \<and> (\<forall>json. loads self raw_data = Some json \<and>
                      get_value json ''nouvelleVersion'' False = Inr json_train \<longrightarrow>
                (\<exists>r. build self raw_data = ([], Inl (InvalidArguments r)))))"
proof -
  have empty: "retrieve_interesting_pdp (JArr list_pdp) = Inr []"
    using assms by (simp add: pdp_loop_no_departure)
  {
    assume l: "get_value json_train ''listePointDeParcours'' False = Inr (JArr list_pdp)"
    have full: "get_vjs self json_train = Inl (InvalidArguments (NoValidStopTime json_train))"
      if "get_value json_train ''numeroCourse'' False = Inr n" for n
      using that l empty by (simp add: get_vjs_def bind_result_def)
    have some: "\<exists>r. get_vjs self json_train = Inl (InvalidArguments r)"
    proof (cases "get_value json_train ''numeroCourse'' False")
      case (Inl e)
      from l have "is_obj json_train" by (cases json_train) simp_all
      with Inl get_value_error [OF Inl] show ?thesis
        by (auto simp add: get_vjs_def bind_result_def)
    next
      case (Inr n)
      with full show ?thesis by blast
    qed
    have "\<exists>r. build self raw_data = ([], Inl (InvalidArguments r))"
      if "loads self raw_data = Some json" "get_value json ''nouvelleVersion'' False = Inr json_train"
      for json
      using that some py_in_present [OF that(2)]
      by (auto simp add: build_def bind_logged_def silent_def)
    note full some this
  }
  with empty show ?thesis by blast
qed

theorem no_departure_rejected_witness:
  "list_all (\<lambda>pdp. is_obj pdp \<and> \<not> has_departure pdp) [ex_terminus]
   \<and> retrieve_interesting_pdp (JArr [ex_terminus]) = Inr []
   \<and> get_vjs ex_builder ex_no_departure_train =
       Inl (InvalidArguments (NoValidStopTime ex_no_departure_train))
   \<and> (\<exists>r. build ex_builder (ex_feed ex_no_departure_train) =
            ([], Inl (InvalidArguments r)))"
proof -
  have h: "list_all (\<lambda>pdp. is_obj pdp \<and> \<not> has_departure pdp) [ex_terminus]"
    by (simp add: ex_points obj_simps)
  have l: "get_value ex_no_departure_train ''listePointDeParcours'' False =
      Inr (JArr [ex_terminus])"
    and n: "get_value ex_no_departure_train ''numeroCourse'' False =
      Inr (JStr ''096231'')"
    and v: "get_value (ex_feed ex_no_departure_train) ''nouvelleVersion'' False =
      Inr ex_no_departure_train"
    and r: "loads ex_builder (ex_feed ex_no_departure_train) =
      Some (ex_feed ex_no_departure_train)"
    by (simp_all add: ex_feeds ex_no_departure_train_def ex_builder_def)
  from no_departure_rejected [OF h, of ex_no_departure_train ex_builder
      "ex_feed ex_no_departure_train"] h l n v r
  show ?thesis by blast
qed

text \<open>
  C10, as the code has it. When the filter returns a non-empty list, its first point has a
  departure block and its last point an arrival block, so both required reads of a
  time-block in \<^verbatim>\<open>_get_vjs\<close> succeed. The read of \<^verbatim>\<open>dateHeure\<close> inside such a
  block is the one required read that can still fail, on a block without date.
\<close>

theorem service_bounds_present:
  assumes "retrieve_interesting_pdp list_pdp = Inr pdps" "pdps \<noteq> []"
  shows "(\<exists>dep. get_value (hd pdps) ''horaireVoyageurDepart'' False = Inr dep \<and> truthy dep)
       \<and> (\<exists>arr. get_value (last pdps) ''horaireVoyageurArrivee'' False = Inr arr \<and> truthy arr)
       \<and> (\<forall>n key elt. get_value json_train ''numeroCourse'' False = Inr n \<and>
             get_value json_train ''listePointDeParcours'' False = Inr list_pdp \<and>
             get_vjs self json_train = Inl (InvalidArguments (MissingKey key elt)) \<longrightarrow>
             key = ''dateHeure'' \<and> field elt ''dateHeure'' = JNull \<and>
             (elt = field (hd pdps) ''horaireVoyageurDepart'' \<or>
              elt = field (last pdps) ''horaireVoyageurArrivee''))"
proof -
  have pdps: "pdp_loop [] False list_pdp' = Inr pdps" if "list_pdp = JArr list_pdp'" for list_pdp'
    using assms that by simp
  from assms obtain xs where xs: "list_pdp = JArr xs"
    by (cases list_pdp) (auto split: if_splits)
  from assms(2) obtain y ys where y: "pdps = y # ys" by (cases pdps) auto
  from pdps [OF xs] y have hd: "has_departure (hd pdps)"
    using pdp_loop_first_departure [of xs y ys] by simp
  from pdps [OF xs] assms(2) have la: "has_arrival (last pdps)"
    by (rule pdp_loop_last_arrival)
  from y have "hd pdps \<in> set pdps" "last pdps \<in> set pdps" by simp_all
  with pdp_loop_kept [OF pdps [OF xs]] have obj: "is_obj (hd pdps)" "is_obj (last pdps)"
    by blast+
  from hd obj have d: "get_value (hd pdps) ''horaireVoyageurDepart'' False =
      Inr (field (hd pdps) ''horaireVoyageurDepart'')"
    by (auto simp add: get_value_required has_departure_def)
  from la obj have a: "get_value (last pdps) ''horaireVoyageurArrivee'' False =
      Inr (field (last pdps) ''horaireVoyageurArrivee'')"
    by (auto simp add: get_value_required has_arrival_def)
  have "key = ''dateHeure'' \<and> field elt ''dateHeure'' = JNull \<and>
             (elt = field (hd pdps) ''horaireVoyageurDepart'' \<or>
              elt = field (last pdps) ''horaireVoyageurArrivee'')"
    if "get_value json_train ''numeroCourse'' False = Inr n"
      "get_value json_train ''listePointDeParcours'' False = Inr list_pdp"
      "get_vjs self json_train = Inl (InvalidArguments (MissingKey key elt))"
    for n key elt
    using that assms d a
    by (auto simp add: get_vjs_def bind_result_def split: sum.splits
        dest: external_error get_value_error)
  with d a hd la show ?thesis
    unfolding has_departure_def has_arrival_def by blast
qed

lemma ex_undated_filter:
  "retrieve_interesting_pdp (JArr [ex_undated, ex_terminus]) = Inr [ex_undated, ex_terminus]"
  by (simp add: pdp_loop_step hfa_step ex_points ex_undated_def obj_simps)

lemma ex_undated_get_vjs:
  "get_vjs ex_builder ex_undated_train =
     Inl (InvalidArguments (MissingKey ''dateHeure''
       (JObj [(''statutCirculationOPE'', JStr ''SUPPRESSION'')])))"
proof -
  have "get_value ex_undated_train ''listePointDeParcours'' False
    = Inr (JArr [ex_undated, ex_terminus])"
    by (simp add: ex_feeds ex_undated_train_def)
  moreover have "get_value ex_undated_train ''numeroCourse'' False
    = Inr (JStr ''096231'')"
    by (simp add: ex_feeds ex_undated_train_def)
  moreover have "get_value ex_undated ''horaireVoyageurDepart'' False =
     Inr (JObj [(''statutCirculationOPE'', JStr ''SUPPRESSION'')])"
    by (simp add: ex_undated_def)
  moreover have "pdp_loop [] False [ex_undated, ex_terminus] = Inr [ex_undated, ex_terminus]"
    using ex_undated_filter by simp
  ultimately show ?thesis
    by (simp add: get_vjs_def bind_result_def)
qed

theorem service_bounds_present_witness:
  "retrieve_interesting_pdp (JArr [ex_undated, ex_terminus]) = Inr [ex_undated, ex_terminus]
   \<and> [ex_undated, ex_terminus] \<noteq> []
   \<and> (\<exists>dep. get_value (hd [ex_undated, ex_terminus]) ''horaireVoyageurDepart'' False = Inr dep \<and> truthy dep)
   \<and> (\<exists>arr. get_value (last [ex_undated, ex_terminus]) ''horaireVoyageurArrivee'' False = Inr arr \<and> truthy arr)
   \<and> get_vjs ex_builder ex_undated_train =
       Inl (InvalidArguments (MissingKey ''dateHeure'' (JObj [(''statutCirculationOPE'', JStr ''SUPPRESSION'')])))
   \<and> JObj [(''statutCirculationOPE'', JStr ''SUPPRESSION'')] =
       field (hd [ex_undated, ex_terminus]) ''horaireVoyageurDepart''"
proof -
  have ne: "[ex_undated, ex_terminus] \<noteq> []" by simp
  have f: "JObj [(''statutCirculationOPE'', JStr ''SUPPRESSION'')] =
       field (hd [ex_undated, ex_terminus]) ''horaireVoyageurDepart''"
    by (simp add: ex_undated_def field_def)
  from service_bounds_present [OF ex_undated_filter ne] ex_undated_filter ne ex_undated_get_vjs f
  show ?thesis by blast
qed

text \<open>
  The filter keeps both points of this message, and the start time is then read from a
  departure block without \<^verbatim>\<open>dateHeure\<close>: the missing-field error is raised after the
  emptiness check.
\<close>

theorem service_bounds_present_counterexample:
  "retrieve_interesting_pdp (JArr [ex_undated, ex_terminus]) = Inr [ex_undated, ex_terminus]
   \<and> get_value ex_undated_train ''listePointDeParcours'' False =
       Inr (JArr [ex_undated, ex_terminus])
   \<and> get_vjs ex_builder ex_undated_train =
       Inl (InvalidArguments (MissingKey ''dateHeure'' (field ex_undated ''horaireVoyageurDepart'')))"
  using ex_undated_filter ex_undated_get_vjs
  by (simp add: ex_feeds ex_undated_train_def ex_undated_def field_def)

section \<open>Properties of the projected-time resolver\<close>

lemma py_eq_string: "py_eq s (JStr r) = (s = JStr r)"
  by (cases s) auto

lemma py_eq_key_order:
  "py_eq (JObj [(''a'', JNum 1), (''b'', JStr ''x'')]) (JObj [(''b'', JStr ''x''), (''a'', JNum 1)])"
  by auto

lemma retrieve_projected_time_key_order:
  "retrieve_projected_time (JObj [(''b'', JStr ''x''), (''a'', JNum 1)])
     (JArr [JObj [(''source'', JObj [(''a'', JNum 1), (''b'', JStr ''x'')])]]) =
   Inr (JObj [(''source'', JObj [(''a'', JNum 1), (''b'', JStr ''x'')])])"
  by (auto simp add: retrieve_projected_time_def bind_result_def)

lemma find_source_obj:
  "list_all is_obj candidates \<Longrightarrow> source_ref \<noteq> JNull \<Longrightarrow>
   find_source source_ref candidates = Inr (find (\<lambda>p. py_eq (field p ''source'') source_ref) candidates)"
  by (induction candidates) (auto simp add: get_value_nullable bind_result_def)

text \<open>
  C2. On a list of candidate objects the resolver does this: with a source reference, it
  returns the first candidate whose source equals the reference (Python's \<^verbatim>\<open>==\<close>,
  which on a string reference is identity of strings), and raises
  \<^verbatim>\<open>InvalidArguments\<close> when there is none, the list being empty or absent included;
  without a reference, it returns the candidate of a one-element list, raises
  \<^verbatim>\<open>InvalidArguments\<close> on two candidates or more, and returns \<^verbatim>\<open>None\<close> on an
  empty or absent list.
\<close>

theorem retrieve_projected_time_cases:
  assumes "list_all is_obj candidates"
  shows "(source_ref \<noteq> JNull \<longrightarrow>
            retrieve_projected_time source_ref (JArr candidates) =
              (case find (\<lambda>p. py_eq (field p ''source'') source_ref) candidates of
                 Some p \<Rightarrow> Inr p
               | None \<Rightarrow> Inl (InvalidArguments (SourceNotFound source_ref (JArr candidates))))
          \<and> (\<forall>p. retrieve_projected_time source_ref (JArr candidates) = Inr p \<longrightarrow>
                 p \<in> set candidates \<and> py_eq (field p ''source'') source_ref)
          \<and> ((\<forall>p \<in> set candidates. \<not> py_eq (field p ''source'') source_ref) \<longrightarrow>
                 retrieve_projected_time source_ref (JArr candidates) =
                   Inl (InvalidArguments (SourceNotFound source_ref (JArr candidates))))
          \<and> retrieve_projected_time source_ref JNull =
                Inl (InvalidArguments (SourceNotFound source_ref JNull)))
       \<and> retrieve_projected_time JNull (JArr [p]) = Inr p
       \<and> (2 \<le> length candidates \<longrightarrow>
            retrieve_projected_time JNull (JArr candidates) =
              Inl (InvalidArguments (MultipleNoSource (JArr candidates))))
       \<and> retrieve_projected_time JNull (JArr []) = Inr JNull
       \<and> retrieve_projected_time JNull JNull = Inr JNull
       \<and> (\<forall>s r. py_eq s (JStr r) = (s = JStr r))"
proof -
  have eq: "retrieve_projected_time source_ref (JArr candidates) =
              (case find (\<lambda>p. py_eq (field p ''source'') source_ref) candidates of
                 Some p \<Rightarrow> Inr p
               | None \<Rightarrow> Inl (InvalidArguments (SourceNotFound source_ref (JArr candidates))))"
    if "source_ref \<noteq> JNull"
  proof -
    have "(if truthy (JArr candidates) then find_in source_ref (JArr candidates) else Inr None) =
        Inr (find (\<lambda>p. py_eq (field p ''source'') source_ref) candidates)"
      using that assms find_source_obj [of candidates source_ref] by (cases candidates) simp_all
    then show ?thesis
      using that by (simp add: retrieve_projected_time_def bind_result_def)
  qed
  have ret: "p \<in> set candidates \<and> py_eq (field p ''source'') source_ref"
    if "source_ref \<noteq> JNull" "retrieve_projected_time source_ref (JArr candidates) = Inr p" for p
  proof -
    from that eq [OF that(1)]
    have "find (\<lambda>p. py_eq (field p ''source'') source_ref) candidates = Some p"
      by (simp split: option.splits)
    then show ?thesis by (simp add: find_Some_iff) (metis nth_mem)
  qed
  have none: "retrieve_projected_time source_ref (JArr candidates) =
                   Inl (InvalidArguments (SourceNotFound source_ref (JArr candidates)))"
    if "source_ref \<noteq> JNull" "\<forall>p \<in> set candidates. \<not> py_eq (field p ''source'') source_ref"
  proof -
    from that(2) have "find (\<lambda>p. py_eq (field p ''source'') source_ref) candidates = None"
      by (simp add: find_None_iff)
    with eq [OF that(1)] show ?thesis by simp
  qed
  have absent: "retrieve_projected_time source_ref JNull =
                Inl (InvalidArguments (SourceNotFound source_ref JNull))"
    if "source_ref \<noteq> JNull"
    using that by (simp add: retrieve_projected_time_def bind_result_def)
  have one: "retrieve_projected_time JNull (JArr [p]) = Inr p"
    by (simp add: retrieve_projected_time_def bind_result_def)
  have many: "retrieve_projected_time JNull (JArr candidates) =
              Inl (InvalidArguments (MultipleNoSource (JArr candidates)))"
    if "2 \<le> length candidates"
    using that by (auto simp add: retrieve_projected_time_def bind_result_def)
  have zero: "retrieve_projected_time JNull (JArr []) = Inr JNull"
    "retrieve_projected_time JNull JNull = Inr JNull"
    by (simp_all add: retrieve_projected_time_def)
  have with_ref: "source_ref \<noteq> JNull \<longrightarrow>
            retrieve_projected_time source_ref (JArr candidates) =
              (case find (\<lambda>p. py_eq (field p ''source'') source_ref) candidates of
                 Some p \<Rightarrow> Inr p
               | None \<Rightarrow> Inl (InvalidArguments (SourceNotFound source_ref (JArr candidates))))
          \<and> (\<forall>p. retrieve_projected_time source_ref (JArr candidates) = Inr p \<longrightarrow>
                 p \<in> set candidates \<and> py_eq (field p ''source'') source_ref)
          \<and> ((\<forall>p \<in> set candidates. \<not> py_eq (field p ''source'') source_ref) \<longrightarrow>
                 retrieve_projected_time source_ref (JArr candidates) =
                   Inl (InvalidArguments (SourceNotFound source_ref (JArr candidates))))
          \<and> retrieve_projected_time source_ref JNull =
                Inl (InvalidArguments (SourceNotFound source_ref JNull))"
  proof (intro impI conjI allI)
    assume r: "source_ref \<noteq> JNull"
    from eq [OF r] show "retrieve_projected_time source_ref (JArr candidates) =
              (case find (\<lambda>p. py_eq (field p ''source'') source_ref) candidates of
                 Some p \<Rightarrow> Inr p
               | None \<Rightarrow> Inl (InvalidArguments (SourceNotFound source_ref (JArr candidates))))" .
    from absent [OF r] show "retrieve_projected_time source_ref JNull =
                Inl (InvalidArguments (SourceNotFound source_ref JNull))" .
    show "retrieve_projected_time source_ref (JArr candidates) =
                   Inl (InvalidArguments (SourceNotFound source_ref (JArr candidates)))"
      if "\<forall>p \<in> set candidates. \<not> py_eq (field p ''source'') source_ref"
      using none [OF r that] .
    show "p \<in> set candidates" if "retrieve_projected_time source_ref (JArr candidates) = Inr p" for p
      using ret [OF r that] by (rule conjunct1)
    show "py_eq (field p ''source'') source_ref"
      if "retrieve_projected_time source_ref (JArr candidates) = Inr p" for p
      using ret [OF r that] by (rule conjunct2)
  qed
  have no_ref: "2 \<le> length candidates \<longrightarrow>
            retrieve_projected_time JNull (JArr candidates) =
              Inl (InvalidArguments (MultipleNoSource (JArr candidates)))"
    using many by (rule impI)
  have str: "\<forall>s r. py_eq s (JStr r) = (s = JStr r)"
    by (simp add: py_eq_string)
  from with_ref one no_ref zero str show ?thesis by (intro conjI)
qed

lemmas ex_candidates = ex_escale_def ex_siph_def

theorem retrieve_projected_time_cases_witness:
  "list_all is_obj [ex_escale, ex_siph]
   \<and> JStr ''SIPH'' \<noteq> JNull
   \<and> retrieve_projected_time (JStr ''SIPH'') (JArr [ex_escale, ex_siph]) = Inr ex_siph
   \<and> JStr ''BREHAT'' \<noteq> JNull
   \<and> retrieve_projected_time (JStr ''BREHAT'') (JArr [ex_escale, ex_siph]) =
       Inl (InvalidArguments (SourceNotFound (JStr ''BREHAT'') (JArr [ex_escale, ex_siph])))
   \<and> 2 \<le> length [ex_escale, ex_siph]
   \<and> retrieve_projected_time JNull (JArr [ex_escale, ex_siph]) =
       Inl (InvalidArguments (MultipleNoSource (JArr [ex_escale, ex_siph])))"
proof -
  have h: "list_all is_obj [ex_escale, ex_siph]" by (simp add: ex_candidates)
  have s: "JStr ''SIPH'' \<noteq> JNull" and b: "JStr ''BREHAT'' \<noteq> JNull" by simp_all
  have two: "2 \<le> length [ex_escale, ex_siph]" by simp
  have fs: "find (\<lambda>p. py_eq (field p ''source'') (JStr ''SIPH'')) [ex_escale, ex_siph] = Some ex_siph"
    and fb: "find (\<lambda>p. py_eq (field p ''source'') (JStr ''BREHAT'')) [ex_escale, ex_siph] = None"
    by (simp_all add: ex_candidates field_def)
  note c = retrieve_projected_time_cases [OF h]
  have "retrieve_projected_time (JStr ''SIPH'') (JArr [ex_escale, ex_siph]) = Inr ex_siph"
    using c [of "JStr ''SIPH''", THEN conjunct1, THEN mp, OF s, THEN conjunct1]
    by (simp only: fs option.case)
  moreover
  have "retrieve_projected_time (JStr ''BREHAT'') (JArr [ex_escale, ex_siph]) =
       Inl (InvalidArguments (SourceNotFound (JStr ''BREHAT'') (JArr [ex_escale, ex_siph])))"
    using c [of "JStr ''BREHAT''", THEN conjunct1, THEN mp, OF b, THEN conjunct1]
    by (simp only: fb option.case)
  moreover
  have "retrieve_projected_time JNull (JArr [ex_escale, ex_siph]) =
       Inl (InvalidArguments (MultipleNoSource (JArr [ex_escale, ex_siph])))"
    using c [THEN conjunct2, THEN conjunct2, THEN conjunct1, THEN mp, OF two] .
  ultimately show ?thesis using h s b two by (intro conjI)
qed

section \<open>Properties of the builder\<close>

subsection \<open>Running the steps\<close>

lemma bind_result_simps:
  "bind_result (Inr x) f = f x"
  "bind_result (Inl e) f = Inl e"
  by (simp_all add: bind_result_def)

lemma bind_logged_simps:
  "bind_logged (silent (Inr x)) f = f x"
  "bind_logged (silent (Inl e)) f = ([], Inl e)"
  "bind_logged (l, Inl e) f = (l, Inl e)"
  "bind_logged (l, Inr x) f = (l @ fst (f x), snd (f x))"
  "bind_logged (record_and_log d x) f = (d # fst (f x), snd (f x))"
  by (simp_all add: bind_logged_def silent_def record_and_log_def split: prod.splits)

lemma field_obj: "field j k = JStr s \<Longrightarrow> is_obj j"
  by (cases j) (simp_all add: field_def)

lemma bind_logged_Inr:
  "bind_logged m f = (l, Inr y) \<Longrightarrow>
   \<exists>l1 x l2. m = (l1, Inr x) \<and> f x = (l2, Inr y) \<and> l = l1 @ l2"
  by (cases m) (auto simp add: bind_logged_def split: sum.splits prod.splits)

lemma trip_updates_Cons_Inr:
  "trip_updates self dict_version (v # vjs) = (l, Inr tus) \<Longrightarrow>
   \<exists>l1 t l2 ts. make_trip_update self v dict_version = (l1, Inr t) \<and>
     trip_updates self dict_version vjs = (l2, Inr ts) \<and> tus = t # ts \<and> l = l1 @ l2"
  by (auto simp add: bind_logged_def silent_def split: prod.splits sum.splits)

lemma trip_updates_Inr:
  "trip_updates self dict_version vjs = (l, Inr tus) \<Longrightarrow> tu \<in> set tus \<Longrightarrow>
   \<exists>v l'. v \<in> set vjs \<and> make_trip_update self v dict_version = (l', Inr tu)"
proof (induction vjs arbitrary: l tus)
  case Nil
  then show ?case by (simp add: silent_def)
next
  case (Cons v vjs)
  from trip_updates_Cons_Inr [OF Cons.prems(1)] obtain l1 t l2 ts where
    t: "make_trip_update self v dict_version = (l1, Inr t)"
    and ts: "trip_updates self dict_version vjs = (l2, Inr ts)" "tus = t # ts"
    by blast
  show ?case
  proof (cases "tu = t")
    case True
    with t show ?thesis by auto
  next
    case False
    with ts Cons.prems(2) have "tu \<in> set ts" by simp
    from Cons.IH [OF ts(1) this] show ?thesis by auto
  qed
qed

lemma build_Inr:
  assumes "build self raw_data = (l, Inr tus)"
  shows "\<exists>json dict_version vjs. loads self raw_data = Some json \<and>
           get_value json ''nouvelleVersion'' False = Inr dict_version \<and>
           get_vjs self dict_version = Inr vjs \<and>
           trip_updates self dict_version vjs = (l, Inr tus)"
  using assms
  by (auto simp add: build_def silent_def bind_logged_def
      split: option.splits sum.splits if_splits prod.splits)

lemma build_eval:
  assumes "loads self raw_data = Some json" "get_value json ''nouvelleVersion'' False = Inr json_train"
    "get_vjs self json_train = Inr vjs"
  shows "build self raw_data = trip_updates self json_train vjs"
  using assms py_in_present [OF assms(2)] by (simp add: build_def bind_logged_simps)

lemma build_produced:
  assumes "build self raw_data = (l, Inr tus)" "tu \<in> set tus"
    "loads self raw_data = Some json" "get_value json ''nouvelleVersion'' False = Inr json_train"
  shows "\<exists>v l'. make_trip_update self v json_train = (l', Inr tu)"
proof -
  from build_Inr [OF assms(1)] assms(3,4) obtain vjs where
    "trip_updates self json_train vjs = (l, Inr tus)" by auto
  from trip_updates_Inr [OF this assms(2)] show ?thesis by blast
qed

lemma make_trip_update_head:
  assumes "field json_train ''statutOperationnel'' = JStr s"
  shows "make_trip_update self v json_train =
     (let trip_update = \<lparr>vj = v, contributor = self_contributor self,
            tu_message = (if truthy (field json_train ''idMotifInterneReference'')
                          then get_message self (field json_train ''idMotifInterneReference'')
                          else None),
            status = None, stop_time_updates = []\<rparr> in
      if s = ''SUPPRIMEE''
        then ([], Inr (trip_update\<lparr>status := Some ''delete''\<rparr>))
      else if s = ''AJOUTEE''
        then ([TripStatusNotHandled ''AJOUTEE''], Inr trip_update)
      else
        bind_logged (silent (get_value json_train ''listePointDeParcours'' False))
          (\<lambda>list_pdp.
        bind_logged (silent (retrieve_interesting_pdp list_pdp))
          (\<lambda>pdps.
        bind_logged (stop_updates self v pdps)
          (\<lambda>sts. silent (Inr (trip_update\<lparr>status := Some ''update'', stop_time_updates := sts\<rparr>))))))"
proof -
  from assms have "is_obj json_train" by (rule field_obj)
  with assms show ?thesis
    by (simp add: make_trip_update_def get_value_nullable get_value_required bind_logged_simps
        TripUpdate_def Let_def silent_def record_and_log_def)
qed

lemma ex_train_fields:
  "get_value (ex_train n s ps) ''numeroCourse'' False = Inr (JStr n)"
  "get_value (ex_train n s ps) ''listePointDeParcours'' False = Inr (JArr ps)"
  "field (ex_train n s ps) ''statutOperationnel'' = JStr s"
  "field (ex_train n s ps) ''idMotifInterneReference'' = JNull"
  "get_value (ex_feed (ex_train n s ps)) ''nouvelleVersion'' False = Inr (ex_train n s ps)"
  "loads ex_builder j = Some j"
  by (simp_all add: ex_train_def ex_feed_def field_def ex_builder_def)

lemma ex_get_vjs: "get_vjs ex_builder (ex_train ''096231'' s ex_points_list) = Inr [96231]"
proof -
  have "pdp_loop [] False [ex_origin, ex_passing, ex_terminus] = Inr [ex_origin, ex_terminus]"
    using ex_filter by simp
  moreover have "get_value ex_origin ''horaireVoyageurDepart'' False =
      Inr (JObj [(''dateHeure'', JStr ''2012-11-20T14:00:00'')])"
    "get_value ex_terminus ''horaireVoyageurArrivee'' False =
      Inr (JObj [(''dateHeure'', JStr ''2012-11-20T15:00:00'')])"
    by (simp_all add: ex_points)
  ultimately show ?thesis
    by (simp add: get_vjs_def ex_train_fields bind_result_simps ex_points_list_def
        external_def ex_builder_def)
qed

subsection \<open>Trip-level status\<close>

text \<open>
  C3. For a message whose trip-level status is \<^verbatim>\<open>SUPPRIMEE\<close>,
  \<^verbatim>\<open>_make_trip_update\<close> returns, for every trip and whatever the list of points and the
  stop lookup are, the trip update with status \<^verbatim>\<open>delete\<close> and no stop-time update,
  and emits no diagnostic; every trip update that \<^verbatim>\<open>build\<close> produces for the message is
  of this form.
\<close>

theorem suppressed_trip:
  assumes "field json_train ''statutOperationnel'' = JStr ''SUPPRIMEE''"
  shows "make_trip_update self v json_train =
           ([], Inr \<lparr>vj = v, contributor = self_contributor self,
                     tu_message = (if truthy (field json_train ''idMotifInterneReference'')
                                   then get_message self (field json_train ''idMotifInterneReference'')
                                   else None),
                     status = Some ''delete'', stop_time_updates = []\<rparr>)
       \<and> (\<forall>json l tus tu. loads self raw_data = Some json \<and>
             get_value json ''nouvelleVersion'' False = Inr json_train \<and>
             build self raw_data = (l, Inr tus) \<and> tu \<in> set tus \<longrightarrow>
             status tu = Some ''delete'' \<and> stop_time_updates tu = [])"
proof -
  have m: "make_trip_update self v json_train =
           ([], Inr \<lparr>vj = v, contributor = self_contributor self,
                     tu_message = (if truthy (field json_train ''idMotifInterneReference'')
                                   then get_message self (field json_train ''idMotifInterneReference'')
                                   else None),
                     status = Some ''delete'', stop_time_updates = []\<rparr>)" for v
    by (simp add: make_trip_update_head [OF assms])
  have "status tu = Some ''delete'' \<and> stop_time_updates tu = []"
    if "loads self raw_data = Some json" "get_value json ''nouvelleVersion'' False = Inr json_train"
      "build self raw_data = (l, Inr tus)" "tu \<in> set tus" for json l tus tu
    using build_produced [OF that(3,4,1,2)] m by auto
  with m show ?thesis by blast
qed

theorem suppressed_trip_witness:
  "field ex_suppressed_train ''statutOperationnel'' = JStr ''SUPPRIMEE''
   \<and> build ex_builder (ex_feed ex_suppressed_train) =
       ([], Inr [\<lparr>vj = 96231, contributor = Some ''realtime.cots'', tu_message = None,
                  status = Some ''delete'', stop_time_updates = []\<rparr>])"
proof -
  have h: "field ex_suppressed_train ''statutOperationnel'' = JStr ''SUPPRIMEE''"
    by (simp add: ex_suppressed_train_def ex_train_fields)
  have "build ex_builder (ex_feed ex_suppressed_train) =
      trip_updates ex_builder ex_suppressed_train [96231]"
    unfolding ex_suppressed_train_def
    by (rule build_eval [OF ex_train_fields(6) ex_train_fields(5) ex_get_vjs])
  also have "\<dots> = ([], Inr [\<lparr>vj = 96231, contributor = Some ''realtime.cots'', tu_message = None,
                  status = Some ''delete'', stop_time_updates = []\<rparr>])"
    using suppressed_trip [OF h, of ex_builder 96231, THEN conjunct1]
    by (simp add: bind_logged_simps silent_def ex_suppressed_train_def ex_train_fields ex_builder_def)
  finally show ?thesis using h by simp
qed

text \<open>
  C9. For a message whose trip-level status is \<^verbatim>\<open>AJOUTEE\<close>,
  \<^verbatim>\<open>_make_trip_update\<close> emits one diagnostic and returns the trip update as it was
  created: no status assigned, no stop-time update. It does not raise: once the trips of the
  message are found, \<^verbatim>\<open>build\<close> returns one such update for each of them.
\<close>

theorem added_trip:
  assumes "field json_train ''statutOperationnel'' = JStr ''AJOUTEE''"
  shows "make_trip_update self v json_train =
           ([TripStatusNotHandled ''AJOUTEE''],
            Inr \<lparr>vj = v, contributor = self_contributor self,
                 tu_message = (if truthy (field json_train ''idMotifInterneReference'')
                               then get_message self (field json_train ''idMotifInterneReference'')
                               else None),
                 status = None, stop_time_updates = []\<rparr>)
       \<and> (\<forall>json l tus tu. loads self raw_data = Some json \<and>
             get_value json ''nouvelleVersion'' False = Inr json_train \<and>
             build self raw_data = (l, Inr tus) \<and> tu \<in> set tus \<longrightarrow>
             status tu = None \<and> stop_time_updates tu = [])
       \<and> (\<forall>json vjs. loads self raw_data = Some json \<and>
             get_value json ''nouvelleVersion'' False = Inr json_train \<and>
             get_vjs self json_train = Inr vjs \<longrightarrow>
             (\<exists>tus. build self raw_data =
                (replicate (length vjs) (TripStatusNotHandled ''AJOUTEE''), Inr tus) \<and>
                length tus = length vjs))"
proof -
  have m: "make_trip_update self v json_train =
           ([TripStatusNotHandled ''AJOUTEE''],
            Inr \<lparr>vj = v, contributor = self_contributor self,
                 tu_message = (if truthy (field json_train ''idMotifInterneReference'')
                               then get_message self (field json_train ''idMotifInterneReference'')
                               else None),
                 status = None, stop_time_updates = []\<rparr>)" for v
    by (simp add: make_trip_update_head [OF assms])
  have "status tu = None \<and> stop_time_updates tu = []"
    if "loads self raw_data = Some json" "get_value json ''nouvelleVersion'' False = Inr json_train"
      "build self raw_data = (l, Inr tus)" "tu \<in> set tus" for json l tus tu
    using build_produced [OF that(3,4,1,2)] m by auto
  moreover
  have "\<exists>tus. build self raw_data =
                (replicate (length vjs) (TripStatusNotHandled ''AJOUTEE''), Inr tus) \<and>
                length tus = length vjs"
    if "loads self raw_data = Some json" "get_value json ''nouvelleVersion'' False = Inr json_train"
      "get_vjs self json_train = Inr vjs" for json vjs
  proof -
    have "\<exists>tus. trip_updates self json_train vs =
        (replicate (length vs) (TripStatusNotHandled ''AJOUTEE''), Inr tus) \<and> length tus = length vs"
      for vs
      by (induction vs) (auto simp add: m bind_logged_simps silent_def)
    with build_eval [OF that] show ?thesis by simp
  qed
  ultimately show ?thesis using m by blast
qed

theorem added_trip_witness:
  "field ex_added_train ''statutOperationnel'' = JStr ''AJOUTEE''
   \<and> build ex_builder (ex_feed ex_added_train) =
       ([TripStatusNotHandled ''AJOUTEE''],
        Inr [\<lparr>vj = 96231, contributor = Some ''realtime.cots'', tu_message = None,
              status = None, stop_time_updates = []\<rparr>])"
proof -
  have h: "field ex_added_train ''statutOperationnel'' = JStr ''AJOUTEE''"
    by (simp add: ex_added_train_def ex_train_fields)
  have "build ex_builder (ex_feed ex_added_train) =
      trip_updates ex_builder ex_added_train [96231]"
    unfolding ex_added_train_def
    by (rule build_eval [OF ex_train_fields(6) ex_train_fields(5) ex_get_vjs])
  also have "\<dots> = ([TripStatusNotHandled ''AJOUTEE''],
        Inr [\<lparr>vj = 96231, contributor = Some ''realtime.cots'', tu_message = None,
              status = None, stop_time_updates = []\<rparr>])"
    using added_trip [OF h, of ex_builder 96231, THEN conjunct1]
    by (simp add: bind_logged_simps silent_def ex_added_train_def ex_train_fields ex_builder_def)
  finally show ?thesis using h by simp
qed

subsection \<open>A time-block without status code\<close>

lemma field_is_obj: "field j k = v \<Longrightarrow> is_obj v \<Longrightarrow> is_obj j"
  by (cases j) (auto simp add: field_def)

lemma field_not_null: "field j k \<noteq> JNull \<Longrightarrow> is_obj j"
  by (cases j) (auto simp add: field_def)

lemma is_obj_not_null: "is_obj v \<Longrightarrow> v \<noteq> JNull"
  by auto






subsection \<open>Status and delay of a direction\<close>

lemma as_duration_Inr: "as_duration c = Inr delay \<Longrightarrow> c \<noteq> JNull \<Longrightarrow> \<exists>n. delay = Some n"
  by (cases c) (auto split: if_splits)

lemma projected_update_cases:
  assumes "projected_update pdp d st = Inr st'"
  shows "st' = st \<or> (\<exists>n. st' = set_delay d (Some n) (set_status d ''update'' st))"
proof -
  from assms show ?thesis
    unfolding projected_update_def bind_result_def
    by (auto split: sum.splits if_splits dest: as_duration_Inr)
qed

lemma update_direction_cases:
  assumes "update_direction pdp d st = (l, Inr st')"
  shows "st' = st \<or> (\<exists>n. st' = set_delay d (Some n) (set_status d ''update'' st))
       \<or> st' = set_status d ''delete'' st"
  using assms
  unfolding update_direction_def bind_logged_def silent_def record_and_log_def
  by (auto split: sum.splits if_splits prod.splits dest: projected_update_cases)

lemma stop_message_cases:
  assumes "stop_message self pdp st = Inr st'"
  shows "arrival_status st' = arrival_status st \<and> arrival_delay st' = arrival_delay st \<and>
         departure_status st' = departure_status st \<and> departure_delay st' = departure_delay st"
  using assms unfolding stop_message_def bind_result_def
  by (auto split: sum.splits if_splits)

lemma stop_update_consistent:
  assumes "stop_update self v pdp = (l, Inr (Some st))"
  shows "consistent st"
proof -
  from assms obtain nav_stop st0 l1 st1 l2 where
    0: "stop_message self pdp (StopTimeUpdate nav_stop) = Inr st0"
    and 1: "update_direction pdp Arrivee st0 = (l1, Inr st1)"
    and 2: "update_direction pdp Depart st1 = (l2, Inr st)"
    unfolding stop_update_def bind_logged_def silent_def record_and_log_def
    by (auto split: sum.splits prod.splits option.splits)
  from stop_message_cases [OF 0] have
    st0: "arrival_status st0 = None" "arrival_delay st0 = None"
      "departure_status st0 = None" "departure_delay st0 = None"
    by (simp_all add: StopTimeUpdate_def)
  from update_direction_cases [OF 1] update_direction_cases [OF 2] show ?thesis
    by (auto simp add: st0 consistent_def)
qed

lemma stop_updates_Cons_Inr:
  "stop_updates self v (pdp # pdps) = (l, Inr sts) \<Longrightarrow>
   \<exists>l1 st l2 sts'. stop_update self v pdp = (l1, Inr st) \<and>
     stop_updates self v pdps = (l2, Inr sts') \<and>
     sts = (case st of None \<Rightarrow> sts' | Some st_update \<Rightarrow> st_update # sts') \<and> l = l1 @ l2"
  by (auto simp add: bind_logged_def silent_def split: prod.splits sum.splits)

lemma stop_updates_consistent:
  "stop_updates self v pdps = (l, Inr sts) \<Longrightarrow> st \<in> set sts \<Longrightarrow> consistent st"
proof (induction pdps arbitrary: l sts)
  case Nil
  then show ?case by (simp add: silent_def)
next
  case (Cons pdp pdps)
  from stop_updates_Cons_Inr [OF Cons.prems(1)] obtain l1 s l2 sts' where
    s: "stop_update self v pdp = (l1, Inr s)"
    and r: "stop_updates self v pdps = (l2, Inr sts')"
    and e: "sts = (case s of None \<Rightarrow> sts' | Some st_update \<Rightarrow> st_update # sts')"
    by blast
  from e Cons.prems(2) have "s = Some st \<or> st \<in> set sts'"
    by (cases s) auto
  with s r Cons.IH show ?case
    by (auto dest: stop_update_consistent)
qed

lemma make_trip_update_consistent:
  assumes "make_trip_update self v json_train = (l, Inr tu)" "st \<in> set (stop_time_updates tu)"
  shows "consistent st"
proof -
  from assms have "\<exists>pdps l' sts. stop_updates self v pdps = (l', Inr sts) \<and> st \<in> set sts"
    unfolding make_trip_update_def Let_def bind_logged_def silent_def record_and_log_def TripUpdate_def
    by (auto split: sum.splits prod.splits if_splits) blast+
  then show ?thesis by (auto dest: stop_updates_consistent)
qed

lemma update_direction_suppression:
  assumes "field pdp (''horaireVoyageur'' @ toggle d) = block"
    "field block ''statutCirculationOPE'' = JStr code"
  shows "code = ''SUPPRESSION'' \<Longrightarrow>
           update_direction pdp d st = ([], Inr (set_status d ''delete'' st))"
    and "code = ''SUPPRESSION_DETOURNEMENT'' \<Longrightarrow>
           update_direction pdp d st =
             ([StopStatusOnlyRemoval ''SUPPRESSION_DETOURNEMENT''], Inr (set_status d ''delete'' st))"
    and "code = ''CREATION'' \<or> code = ''DETOURNEMENT'' \<Longrightarrow>
           update_direction pdp d st = ([StopStatusNotHandled code], Inr st)"
proof -
  from assms(2) have b: "is_obj block" by (rule field_obj)
  with assms(1) have p: "is_obj pdp" by (rule field_is_obj)
  from b have n: "block \<noteq> JNull" by (rule is_obj_not_null)
  show "code = ''SUPPRESSION'' \<Longrightarrow>
           update_direction pdp d st = ([], Inr (set_status d ''delete'' st))"
    using assms b p n
    by (simp add: update_direction_def get_value_nullable bind_logged_simps silent_def)
  show "code = ''SUPPRESSION_DETOURNEMENT'' \<Longrightarrow>
           update_direction pdp d st =
             ([StopStatusOnlyRemoval ''SUPPRESSION_DETOURNEMENT''], Inr (set_status d ''delete'' st))"
    using assms b p n
    by (simp add: update_direction_def get_value_nullable bind_logged_simps silent_def)
  show "code = ''CREATION'' \<or> code = ''DETOURNEMENT'' \<Longrightarrow>
           update_direction pdp d st = ([StopStatusNotHandled code], Inr st)"
    using assms b p n
    by (auto simp add: update_direction_def get_value_nullable bind_logged_simps silent_def
        record_and_log_def)
qed

subsection \<open>A status code that the feed does not define\<close>

lemma update_direction_invalid:
  assumes "field pdp (''horaireVoyageur'' @ toggle d) = block"
    "field block ''statutCirculationOPE'' = code" "code \<noteq> JNull"
    "code \<notin> JStr ` {''SUPPRESSION'', ''SUPPRESSION_DETOURNEMENT'', ''CREATION'', ''DETOURNEMENT''}"
  shows "update_direction pdp d st = ([], Inl (InvalidArguments (InvalidStatus code (toggle d))))"
proof -
  from assms(2,3) have b: "is_obj block" by (auto intro: field_not_null)
  with assms(1) have p: "is_obj pdp" by (rule field_is_obj)
  from b have n: "block \<noteq> JNull" by (rule is_obj_not_null)
  from assms b p n show ?thesis
    by (simp add: update_direction_def get_value_nullable bind_logged_simps silent_def)
qed

lemma stop_update_fails:
  assumes inv: "\<And>st :: ('st, 'msg) stop_time_update. update_direction pdp d st = ([], Inl err)"
    and known: "\<And>log_dict. get_navitia_stop_time self pdp v \<noteq> Inr (None, log_dict)"
  shows "\<exists>l e. stop_update (self :: ('raw, 'time, 'vj, 'st, 'msg) builder) v pdp = (l, Inl e)"
proof (cases "get_navitia_stop_time self pdp v")
  case (Inl e)
  then show ?thesis by (simp add: stop_update_def bind_logged_simps)
next
  case (Inr r)
  with known obtain nav_stop log_dict where r: "r = (Some nav_stop, log_dict)"
    by (cases r) (auto simp add: neq_Nil_conv)
  show ?thesis
  proof (cases "stop_message self pdp (StopTimeUpdate nav_stop)")
    case (Inl e)
    with Inr r show ?thesis
      by (cases log_dict) (simp_all add: stop_update_def bind_logged_simps silent_def record_and_log_def)
  next
    case st0: (Inr st0)
    obtain l1 r1 where a: "update_direction pdp Arrivee st0 = (l1, r1)" by (cases "update_direction pdp Arrivee st0")
    show ?thesis
    proof (cases r1)
      case (Inl e)
      with Inr r st0 a show ?thesis
        by (cases log_dict) (simp_all add: stop_update_def bind_logged_simps silent_def record_and_log_def)
    next
      case st1: (Inr st1)
      from inv [of st0] a st1 have "d = Depart" by (cases d) simp_all
      with inv [of st1] Inr r st0 a st1 show ?thesis
        by (cases log_dict) (simp_all add: stop_update_def bind_logged_simps silent_def record_and_log_def)
    qed
  qed
qed

lemma stop_updates_fail:
  "\<exists>l e. stop_update self v pdp = (l, Inl e) \<Longrightarrow> pdp \<in> set pdps \<Longrightarrow>
   \<exists>l e. stop_updates self v pdps = (l, Inl e)"
proof (induction pdps)
  case Nil
  then show ?case by simp
next
  case (Cons p pdps)
  obtain l1 r1 where p: "stop_update self v p = (l1, r1)" by (cases "stop_update self v p")
  show ?case
  proof (cases r1)
    case (Inl e)
    with p show ?thesis by (simp add: bind_logged_simps)
  next
    case (Inr s)
    with p Cons.prems have "pdp \<in> set pdps" by auto
    with Cons.IH Cons.prems(1) obtain l2 e where "stop_updates self v pdps = (l2, Inl e)" by blast
    with p Inr show ?thesis by (simp add: bind_logged_simps)
  qed
qed

lemma make_trip_update_fails:
  assumes "field json_train ''statutOperationnel'' \<notin> {JStr ''SUPPRIMEE'', JStr ''AJOUTEE''}"
    "get_value json_train ''listePointDeParcours'' False = Inr list_pdp"
    "retrieve_interesting_pdp list_pdp = Inr pdps"
    "stop_updates self v pdps = (l, Inl e)"
  shows "\<exists>l e. make_trip_update self v json_train = (l, Inl e)"
proof -
  from assms(2) have obj: "is_obj json_train" by (cases json_train) simp_all
  show ?thesis
  proof (cases "field json_train ''statutOperationnel'' = JNull")
    case True
    with obj show ?thesis
      by (simp add: make_trip_update_def get_value_nullable get_value_required bind_logged_simps Let_def)
  next
    case False
    with obj assms show ?thesis
      by (simp add: make_trip_update_def get_value_nullable get_value_required bind_logged_simps Let_def)
  qed
qed

lemma trip_updates_fail:
  "v \<in> set vjs \<Longrightarrow> \<exists>l e. make_trip_update self v dict_version = (l, Inl e) \<Longrightarrow>
   \<exists>l e. trip_updates self dict_version vjs = (l, Inl e)"
proof (induction vjs)
  case Nil
  then show ?case by simp
next
  case (Cons w vjs)
  obtain l1 r1 where w: "make_trip_update self w dict_version = (l1, r1)"
    by (cases "make_trip_update self w dict_version")
  show ?case
  proof (cases r1)
    case (Inl e)
    with w show ?thesis by (simp add: bind_logged_simps)
  next
    case (Inr tu)
    with w Cons.prems have "v \<in> set vjs" by auto
    with Cons.IH Cons.prems(2) obtain l2 e where "trip_updates self dict_version vjs = (l2, Inl e)"
      by blast
    with w Inr show ?thesis by (simp add: bind_logged_simps)
  qed
qed

subsection \<open>The builder on the sample feeds\<close>

lemmas ex_updates = ex_origin_update_def ex_terminus_update_def ex_delayed_update_def

lemmas stop_update_unfold = stop_update_def get_navitia_stop_time_def stop_message_def
  update_direction_def projected_update_def retrieve_projected_time_def bind_logged_simps
  bind_result_simps silent_def record_and_log_def ex_builder_def StopTimeUpdate_def
  timestamp_min_def timestamp_max_def

lemma ex_stop_update_delayed_origin:
  "stop_update ex_builder v ex_delayed_origin =
     ([], Inr (Some \<lparr>navitia_stop = ''713065'', st_message = None, arrival_status = None,
                     departure_status = Some ''update'', arrival_delay = None,
                     departure_delay = Some 900\<rparr>))"
  by (simp add: stop_update_unfold ex_delayed_origin_def)

lemma ex_stop_update_suppressed_terminus:
  "stop_update ex_builder v ex_suppressed_terminus =
     ([], Inr (Some \<lparr>navitia_stop = ''718015'', st_message = None,
                     arrival_status = Some ''delete'', departure_status = None,
                     arrival_delay = None, departure_delay = None\<rparr>))"
  by (simp add: stop_update_unfold ex_suppressed_terminus_def)

lemma ex_stop_update_origin:
  "stop_update ex_builder v ex_origin =
     ([], Inr (Some (StopTimeUpdate ''713065'')))"
  by (simp add: stop_update_unfold ex_origin_def)

lemma ex_stop_update_terminus:
  "stop_update ex_builder v ex_terminus =
     ([], Inr (Some (StopTimeUpdate ''718015'')))"
  by (simp add: stop_update_unfold ex_terminus_def)

lemma ex_stop_update_unknown:
  "stop_update ex_builder v ex_unknown_invalid = ([Metrology ''missing stop point''], Inr None)"
  by (simp add: stop_update_unfold ex_unknown_invalid_def ex_invalid_block_def)

lemma ex_stop_update_invalid:
  "stop_update ex_builder v ex_invalid_origin =
     ([], Inl (InvalidArguments (InvalidStatus (JStr ''RETARD'') ''Depart'')))"
  by (simp add: stop_update_unfold ex_invalid_origin_def ex_invalid_block_def)

lemma ex_filter_delayed:
  "pdp_loop [] False [ex_delayed_origin, ex_passing, ex_suppressed_terminus] =
     Inr [ex_delayed_origin, ex_suppressed_terminus]"
  by (simp add: pdp_loop_step hfa_step ex_points ex_delayed_origin_def ex_suppressed_terminus_def
      obj_simps)

lemma ex_get_vjs_delayed: "get_vjs ex_builder ex_delayed_train = Inr [96231]"
proof -
  have "get_value ex_delayed_origin ''horaireVoyageurDepart'' False =
      Inr (JObj [(''dateHeure'', JStr ''2012-11-20T14:00:00'')])"
    "get_value ex_suppressed_terminus ''horaireVoyageurArrivee'' False =
      Inr (JObj [(''dateHeure'', JStr ''2012-11-20T15:00:00''),
                 (''statutCirculationOPE'', JStr ''SUPPRESSION'')])"
    by (simp_all add: ex_delayed_origin_def ex_suppressed_terminus_def)
  then show ?thesis
    by (simp add: get_vjs_def ex_delayed_train_def ex_train_fields ex_filter_delayed
        bind_result_simps external_def ex_builder_def)
qed

lemma ex_filters_invalid:
  "pdp_loop [] False [ex_invalid_origin, ex_passing, ex_terminus] = Inr [ex_invalid_origin, ex_terminus]"
  "pdp_loop [] False [ex_origin, ex_unknown_invalid, ex_terminus] =
     Inr [ex_origin, ex_unknown_invalid, ex_terminus]"
  by (simp_all add: pdp_loop_step hfa_step ex_points ex_invalid_origin_def ex_unknown_invalid_def
      ex_invalid_block_def obj_simps)

lemma ex_get_vjs_invalid:
  "get_vjs ex_builder ex_invalid_train = Inr [96231]"
  "get_vjs ex_builder ex_suppressed_invalid_train = Inr [96231]"
  "get_vjs ex_builder ex_unknown_invalid_train = Inr [96231]"
proof -
  have "get_value ex_origin ''horaireVoyageurDepart'' False =
      Inr (JObj [(''dateHeure'', JStr ''2012-11-20T14:00:00'')])"
    "get_value ex_invalid_origin ''horaireVoyageurDepart'' False = Inr ex_invalid_block"
    "get_value ex_invalid_block ''dateHeure'' False = Inr (JStr ''2012-11-20T14:00:00'')"
    "get_value ex_terminus ''horaireVoyageurArrivee'' False =
      Inr (JObj [(''dateHeure'', JStr ''2012-11-20T15:00:00'')])"
    by (simp_all add: ex_points ex_invalid_origin_def ex_invalid_block_def)
  then show "get_vjs ex_builder ex_invalid_train = Inr [96231]"
    "get_vjs ex_builder ex_suppressed_invalid_train = Inr [96231]"
    "get_vjs ex_builder ex_unknown_invalid_train = Inr [96231]"
    by (simp_all add: get_vjs_def ex_invalid_train_def ex_suppressed_invalid_train_def
        ex_unknown_invalid_train_def ex_train_fields ex_filters_invalid
        bind_result_simps external_def ex_builder_def)
qed

lemma ex_contributor: "self_contributor ex_builder = Some ''realtime.cots''"
  by (simp add: ex_builder_def)

lemma ex_build_delayed:
  "build ex_builder (ex_feed ex_delayed_train) =
     ([], Inr [\<lparr>vj = 96231, contributor = Some ''realtime.cots'', tu_message = None,
                status = Some ''update'',
                stop_time_updates =
                  [\<lparr>navitia_stop = ''713065'', st_message = None, arrival_status = None,
                     departure_status = Some ''update'', arrival_delay = None,
                     departure_delay = Some 900\<rparr>,
                   \<lparr>navitia_stop = ''718015'', st_message = None,
                     arrival_status = Some ''delete'', departure_status = None,
                     arrival_delay = None, departure_delay = None\<rparr>]\<rparr>])"
proof -
  have "build ex_builder (ex_feed ex_delayed_train) = trip_updates ex_builder ex_delayed_train [96231]"
    unfolding ex_delayed_train_def
    by (rule build_eval [OF ex_train_fields(6) ex_train_fields(5)
          ex_get_vjs_delayed [unfolded ex_delayed_train_def]])
  also have "\<dots> = ([], Inr [\<lparr>vj = 96231, contributor = Some ''realtime.cots'', tu_message = None,
                status = Some ''update'',
                stop_time_updates =
                  [\<lparr>navitia_stop = ''713065'', st_message = None, arrival_status = None,
                     departure_status = Some ''update'', arrival_delay = None,
                     departure_delay = Some 900\<rparr>,
                   \<lparr>navitia_stop = ''718015'', st_message = None,
                     arrival_status = Some ''delete'', departure_status = None,
                     arrival_delay = None, departure_delay = None\<rparr>]\<rparr>])"
    by (simp add: ex_delayed_train_def make_trip_update_head [OF ex_train_fields(3)]
        ex_train_fields ex_filter_delayed ex_stop_update_delayed_origin
        ex_stop_update_suppressed_terminus
        bind_logged_simps silent_def ex_contributor)
  finally show ?thesis .
qed

lemma ex_build_invalid:
  "build ex_builder (ex_feed ex_invalid_train) =
     ([], Inl (InvalidArguments (InvalidStatus (JStr ''RETARD'') ''Depart'')))"
proof -
  have "build ex_builder (ex_feed ex_invalid_train) = trip_updates ex_builder ex_invalid_train [96231]"
    unfolding ex_invalid_train_def
    by (rule build_eval [OF ex_train_fields(6) ex_train_fields(5)
          ex_get_vjs_invalid(1) [unfolded ex_invalid_train_def]])
  also have "\<dots> = ([], Inl (InvalidArguments (InvalidStatus (JStr ''RETARD'') ''Depart'')))"
    by (simp add: ex_invalid_train_def make_trip_update_head [OF ex_train_fields(3)]
        ex_train_fields ex_filters_invalid ex_stop_update_invalid
        bind_logged_simps silent_def ex_contributor)
  finally show ?thesis .
qed

lemma ex_build_suppressed_invalid:
  "build ex_builder (ex_feed ex_suppressed_invalid_train) =
     ([], Inr [\<lparr>vj = 96231, contributor = Some ''realtime.cots'', tu_message = None,
                status = Some ''delete'', stop_time_updates = []\<rparr>])"
proof -
  have "build ex_builder (ex_feed ex_suppressed_invalid_train) =
      trip_updates ex_builder ex_suppressed_invalid_train [96231]"
    unfolding ex_suppressed_invalid_train_def
    by (rule build_eval [OF ex_train_fields(6) ex_train_fields(5)
          ex_get_vjs_invalid(2) [unfolded ex_suppressed_invalid_train_def]])
  also have "\<dots> = ([], Inr [\<lparr>vj = 96231, contributor = Some ''realtime.cots'', tu_message = None,
                status = Some ''delete'', stop_time_updates = []\<rparr>])"
    by (simp add: ex_suppressed_invalid_train_def make_trip_update_head [OF ex_train_fields(3)]
        ex_train_fields bind_logged_simps silent_def ex_contributor)
  finally show ?thesis .
qed

lemma ex_build_unknown_invalid:
  "build ex_builder (ex_feed ex_unknown_invalid_train) =
     ([Metrology ''missing stop point''],
      Inr [\<lparr>vj = 96231, contributor = Some ''realtime.cots'', tu_message = None,
             status = Some ''update'',
             stop_time_updates = [StopTimeUpdate ''713065'', StopTimeUpdate ''718015'']\<rparr>])"
proof -
  have "build ex_builder (ex_feed ex_unknown_invalid_train) =
      trip_updates ex_builder ex_unknown_invalid_train [96231]"
    unfolding ex_unknown_invalid_train_def
    by (rule build_eval [OF ex_train_fields(6) ex_train_fields(5)
          ex_get_vjs_invalid(3) [unfolded ex_unknown_invalid_train_def]])
  also have "\<dots> = ([Metrology ''missing stop point''],
      Inr [\<lparr>vj = 96231, contributor = Some ''realtime.cots'', tu_message = None,
             status = Some ''update'',
             stop_time_updates = [StopTimeUpdate ''713065'', StopTimeUpdate ''718015'']\<rparr>])"
    by (simp add: ex_unknown_invalid_train_def make_trip_update_head [OF ex_train_fields(3)]
        ex_train_fields ex_filters_invalid ex_stop_update_origin ex_stop_update_unknown
        ex_stop_update_terminus
        bind_logged_simps silent_def ex_contributor)
  finally show ?thesis .
qed

subsection \<open>Stop-level properties\<close>

text \<open>
  C8. In every stop-time update of every trip update that \<^verbatim>\<open>build\<close> returns, and for
  each direction, a status \<^verbatim>\<open>update\<close> comes with a delay and a status
  \<^verbatim>\<open>delete\<close> with none. The code \<^verbatim>\<open>SUPPRESSION\<close> sets the status of its
  direction to \<^verbatim>\<open>delete\<close> and touches no delay.
\<close>

theorem update_carries_delay:
  assumes "build self raw_data = (l, Inr tus)" "tu \<in> set tus" "st \<in> set (stop_time_updates tu)"
  shows "(arrival_status st = Some ''update'' \<longrightarrow> arrival_delay st \<noteq> None)
       \<and> (arrival_status st = Some ''delete'' \<longrightarrow> arrival_delay st = None)
       \<and> (departure_status st = Some ''update'' \<longrightarrow> departure_delay st \<noteq> None)
       \<and> (departure_status st = Some ''delete'' \<longrightarrow> departure_delay st = None)
       \<and> (\<forall>pdp d block st0.
            field pdp (''horaireVoyageur'' @ toggle d) = block \<and>
            field block ''statutCirculationOPE'' = JStr ''SUPPRESSION'' \<longrightarrow>
            update_direction pdp d st0 = ([], Inr (set_status d ''delete'' (st0 :: ('c, 'd) stop_time_update))))"
proof -
  from build_Inr [OF assms(1)] obtain dict_version vjs where
    "trip_updates self dict_version vjs = (l, Inr tus)" by blast
  from trip_updates_Inr [OF this assms(2)] obtain v l' where
    "make_trip_update self v dict_version = (l', Inr tu)" by blast
  from make_trip_update_consistent [OF this assms(3)] have c: "consistent st" .
  have "update_direction pdp d st0 = ([], Inr (set_status d ''delete'' st0))"
    if "field pdp (''horaireVoyageur'' @ toggle d) = block"
      "field block ''statutCirculationOPE'' = JStr ''SUPPRESSION''"
    for pdp d block and st0 :: "('c, 'd) stop_time_update"
    using update_direction_suppression(1) [OF that refl] .
  with c show ?thesis unfolding consistent_def by blast
qed

theorem update_carries_delay_witness:
  "build ex_builder (ex_feed ex_delayed_train) = ([], Inr [ex_delayed_update])
   \<and> ex_delayed_update \<in> set [ex_delayed_update]
   \<and> ex_origin_update \<in> set (stop_time_updates ex_delayed_update)
   \<and> departure_status ex_origin_update = Some ''update''
   \<and> departure_delay ex_origin_update \<noteq> None
   \<and> ex_terminus_update \<in> set (stop_time_updates ex_delayed_update)
   \<and> arrival_status ex_terminus_update = Some ''delete''
   \<and> arrival_delay ex_terminus_update = None"
proof -
  have b: "build ex_builder (ex_feed ex_delayed_train) = ([], Inr [ex_delayed_update])"
    by (simp add: ex_build_delayed ex_updates)
  have t: "ex_delayed_update \<in> set [ex_delayed_update]" by simp
  have o: "ex_origin_update \<in> set (stop_time_updates ex_delayed_update)"
    and a: "ex_terminus_update \<in> set (stop_time_updates ex_delayed_update)"
    by (simp_all add: ex_delayed_update_def)
  have s: "departure_status ex_origin_update = Some ''update''"
    "arrival_status ex_terminus_update = Some ''delete''"
    by (simp_all add: ex_updates)
  from update_carries_delay [OF b t o] s(1) have "departure_delay ex_origin_update \<noteq> None"
    by blast
  moreover
  from update_carries_delay [OF b t a] s(2) have "arrival_delay ex_terminus_update = None"
    by blast
  ultimately show ?thesis using b t o a s by (intro conjI)
qed

text \<open>
  C4, as the code has it. On a time-block whose status code is none of
  \<^verbatim>\<open>SUPPRESSION\<close>, \<^verbatim>\<open>SUPPRESSION_DETOURNEMENT\<close>, \<^verbatim>\<open>CREATION\<close> and
  \<^verbatim>\<open>DETOURNEMENT\<close>, the classifier raises \<^verbatim>\<open>InvalidArguments\<close> with the code
  and the direction. When the point is a relevant stop of a message whose trip-level status
  is neither \<^verbatim>\<open>SUPPRIMEE\<close> nor \<^verbatim>\<open>AJOUTEE\<close>, and the stop lookup does not skip it
  for one of the trips found, \<^verbatim>\<open>build\<close> fails and returns no trip update.
\<close>

theorem invalid_status_rejected:
  assumes "field pdp (''horaireVoyageur'' @ toggle d) = block"
    "field block ''statutCirculationOPE'' = code" "code \<noteq> JNull"
    "code \<notin> JStr ` {''SUPPRESSION'', ''SUPPRESSION_DETOURNEMENT'', ''CREATION'', ''DETOURNEMENT''}"
  shows "update_direction pdp d (st_update :: ('st, 'msg) stop_time_update) =
           ([], Inl (InvalidArguments (InvalidStatus code (toggle d))))
       \<and> (\<forall>json json_train list_pdp pdps vjs v.
            loads (self :: ('raw, 'time, 'vj, 'st, 'msg) builder) raw_data = Some json \<and>
            get_value json ''nouvelleVersion'' False = Inr json_train \<and>
            field json_train ''statutOperationnel'' \<notin> {JStr ''SUPPRIMEE'', JStr ''AJOUTEE''} \<and>
            get_value json_train ''listePointDeParcours'' False = Inr list_pdp \<and>
            retrieve_interesting_pdp list_pdp = Inr pdps \<and> pdp \<in> set pdps \<and>
            get_vjs self json_train = Inr vjs \<and> v \<in> set vjs \<and>
            (\<forall>log_dict. get_navitia_stop_time self pdp v \<noteq> Inr (None, log_dict)) \<longrightarrow>
            (\<exists>l e. build self raw_data = (l, Inl e)))"
proof -
  note inv = update_direction_invalid [OF assms]
  have "\<exists>l e. build self raw_data = (l, Inl e)"
    if "loads self raw_data = Some json" "get_value json ''nouvelleVersion'' False = Inr json_train"
      "field json_train ''statutOperationnel'' \<notin> {JStr ''SUPPRIMEE'', JStr ''AJOUTEE''}"
      "get_value json_train ''listePointDeParcours'' False = Inr list_pdp"
      "retrieve_interesting_pdp list_pdp = Inr pdps" "pdp \<in> set pdps"
      "get_vjs self json_train = Inr vjs" "v \<in> set vjs"
      "\<forall>log_dict. get_navitia_stop_time self pdp v \<noteq> Inr (None, log_dict)"
    for json json_train list_pdp pdps vjs v
  proof -
    have "\<exists>l e. stop_update self v pdp = (l, Inl e)"
      using inv that(9) by (intro stop_update_fails [of pdp d]) auto
    from stop_updates_fail [OF this that(6)] obtain l e where
      "stop_updates self v pdps = (l, Inl e)" by blast
    from make_trip_update_fails [OF that(3,4,5) this]
    have "\<exists>l e. make_trip_update self v json_train = (l, Inl e)" .
    from trip_updates_fail [OF that(8) this] build_eval [OF that(1,2,7)]
    show ?thesis by simp
  qed
  with inv show ?thesis by blast
qed

theorem invalid_status_rejected_witness:
  "field ex_invalid_origin (''horaireVoyageur'' @ toggle Depart) = ex_invalid_block
   \<and> field ex_invalid_block ''statutCirculationOPE'' = JStr ''RETARD''
   \<and> retrieve_interesting_pdp (JArr [ex_invalid_origin, ex_passing, ex_terminus]) =
       Inr [ex_invalid_origin, ex_terminus]
   \<and> get_vjs ex_builder ex_invalid_train = Inr [96231]
   \<and> get_navitia_stop_time ex_builder ex_invalid_origin (96231 :: nat) = Inr (Some ''713065'', None)
   \<and> update_direction ex_invalid_origin Depart (StopTimeUpdate ''713065'' :: (string, string) stop_time_update) =
       ([], Inl (InvalidArguments (InvalidStatus (JStr ''RETARD'') ''Depart'')))
   \<and> (\<exists>l e. build ex_builder (ex_feed ex_invalid_train) = (l, Inl e))
   \<and> build ex_builder (ex_feed ex_invalid_train) =
       ([], Inl (InvalidArguments (InvalidStatus (JStr ''RETARD'') ''Depart'')))"
proof -
  have a: "field ex_invalid_origin (''horaireVoyageur'' @ toggle Depart) = ex_invalid_block"
    and b: "field ex_invalid_block ''statutCirculationOPE'' = JStr ''RETARD''"
    by (simp_all add: ex_invalid_origin_def ex_unknown_invalid_def ex_invalid_block_def field_def)
  have c: "JStr ''RETARD'' \<noteq> JNull"
    and d: "JStr ''RETARD'' \<notin> JStr ` {''SUPPRESSION'', ''SUPPRESSION_DETOURNEMENT'', ''CREATION'', ''DETOURNEMENT''}"
    by auto
  have f: "retrieve_interesting_pdp (JArr [ex_invalid_origin, ex_passing, ex_terminus]) =
       Inr [ex_invalid_origin, ex_terminus]"
    by (simp add: ex_filters_invalid)
  have k: "get_navitia_stop_time ex_builder ex_invalid_origin (96231 :: nat) = Inr (Some ''713065'', None)"
    by (simp add: get_navitia_stop_time_def ex_invalid_origin_def ex_builder_def bind_result_simps)
  have s: "field ex_invalid_train ''statutOperationnel'' \<notin> {JStr ''SUPPRIMEE'', JStr ''AJOUTEE''}"
    by (simp add: ex_invalid_train_def ex_train_fields)
  note t = invalid_status_rejected [OF a b c d, of _ ex_builder "ex_feed ex_invalid_train"]
  have "update_direction ex_invalid_origin Depart (StopTimeUpdate ''713065'' :: (string, string) stop_time_update) =
       ([], Inl (InvalidArguments (InvalidStatus (JStr ''RETARD'') ''Depart'')))"
    using t [THEN conjunct1, of "StopTimeUpdate ''713065''"] by simp
  moreover have "\<exists>l e. build ex_builder (ex_feed ex_invalid_train) = (l, Inl e)"
  proof -
    have "loads ex_builder (ex_feed ex_invalid_train) = Some (ex_feed ex_invalid_train) \<and>
      get_value (ex_feed ex_invalid_train) ''nouvelleVersion'' False = Inr ex_invalid_train \<and>
      field ex_invalid_train ''statutOperationnel'' \<notin> {JStr ''SUPPRIMEE'', JStr ''AJOUTEE''} \<and>
      get_value ex_invalid_train ''listePointDeParcours'' False =
        Inr (JArr [ex_invalid_origin, ex_passing, ex_terminus]) \<and>
      retrieve_interesting_pdp (JArr [ex_invalid_origin, ex_passing, ex_terminus]) =
        Inr [ex_invalid_origin, ex_terminus] \<and>
      ex_invalid_origin \<in> set [ex_invalid_origin, ex_terminus] \<and>
      get_vjs ex_builder ex_invalid_train = Inr [96231] \<and> 96231 \<in> set [96231 :: nat] \<and>
      (\<forall>log_dict. get_navitia_stop_time ex_builder ex_invalid_origin 96231 \<noteq> Inr (None, log_dict))"
      using f s k ex_get_vjs_invalid(1)
      by (simp add: ex_invalid_train_def ex_train_fields)
    with t [THEN conjunct2] show ?thesis by blast
  qed
  ultimately show ?thesis using a b f k ex_get_vjs_invalid(1) ex_build_invalid by (intro conjI)
qed

text \<open>
  Two messages with a departure block of status code \<^verbatim>\<open>RETARD\<close> that are processed
  without failure: one whose trip-level status is \<^verbatim>\<open>SUPPRIMEE\<close>, where no stop is
  looked at, and one where the block belongs to a relevant stop that the stop lookup does
  not know, which is skipped with a diagnostic.
\<close>

theorem invalid_status_rejected_counterexample:
  "field ex_invalid_origin ''horaireVoyageurDepart'' = ex_invalid_block
   \<and> field ex_unknown_invalid ''horaireVoyageurDepart'' = ex_invalid_block
   \<and> field ex_invalid_block ''statutCirculationOPE'' = JStr ''RETARD''
   \<and> build ex_builder (ex_feed ex_suppressed_invalid_train) =
       ([], Inr [\<lparr>vj = 96231, contributor = Some ''realtime.cots'', tu_message = None,
                  status = Some ''delete'', stop_time_updates = []\<rparr>])
   \<and> retrieve_interesting_pdp (JArr [ex_origin, ex_unknown_invalid, ex_terminus]) =
       Inr [ex_origin, ex_unknown_invalid, ex_terminus]
   \<and> build ex_builder (ex_feed ex_unknown_invalid_train) =
       ([Metrology ''missing stop point''],
        Inr [\<lparr>vj = 96231, contributor = Some ''realtime.cots'', tu_message = None,
               status = Some ''update'',
               stop_time_updates = [StopTimeUpdate ''713065'', StopTimeUpdate ''718015'']\<rparr>])"
proof -
  have "field ex_invalid_origin ''horaireVoyageurDepart'' = ex_invalid_block"
    "field ex_unknown_invalid ''horaireVoyageurDepart'' = ex_invalid_block"
    "field ex_invalid_block ''statutCirculationOPE'' = JStr ''RETARD''"
    by (simp_all add: ex_invalid_origin_def ex_unknown_invalid_def ex_invalid_block_def field_def)
  moreover
  have "retrieve_interesting_pdp (JArr [ex_origin, ex_unknown_invalid, ex_terminus]) =
       Inr [ex_origin, ex_unknown_invalid, ex_terminus]"
    by (simp add: ex_filters_invalid)
  ultimately show ?thesis
    using ex_build_suppressed_invalid ex_build_unknown_invalid by (intro conjI)
qed

end
